theory Spec2Isabelle
  imports Complex_Main
begin

section \<open>Integers and scalars of PETSc\<close>

type_synonym PetscInt = int
type_synonym PetscErrorCode = int

text \<open>
  \<open>PetscReal\<close> and \<open>PetscScalar\<close> are C doubles.  A double is an IEEE 754 binary64 number: a
  finite number \<open>Finite s m e\<close> with sign \<open>s\<close> (true for minus), significand \<open>m\<close> below \<open>2^53\<close> and
  exponent \<open>e\<close> from -1074 to 971, of value \<open>(-1)^s * m * 2^e\<close>; an infinity with its sign; or a
  NaN.  The zeros are \<open>Finite s 0 (-1074)\<close>; one NaN stands for all NaN bit patterns.  The
  arithmetic is the one of the processor: every operation gives the double nearest to the exact
  result, the one with the even significand when two are equally near, an infinity beyond the
  largest double, and NaN where IEEE 754 says so.
\<close>

datatype double = Finite bool nat int | Infinity bool | NaN

type_synonym PetscReal = double
type_synonym PetscScalar = double

text \<open>The number of binary digits of a natural number.\<close>

function bitLength :: "nat \<Rightarrow> nat" where
  "bitLength n = (if n = 0 then 0 else Suc (bitLength (n div 2)))"
  by pat_completeness auto
termination
  by (relation "measure id") auto

declare bitLength.simps [simp del]

text \<open>The integer \<open>k\<close> with \<open>2^k \<le> num / den < 2^(k+1)\<close>, for positive \<open>num\<close> and \<open>den\<close>.\<close>

definition floorLog2 :: "nat \<Rightarrow> nat \<Rightarrow> int" where
  "floorLog2 num den =
     (let k = int (bitLength num) - int (bitLength den)
      in if (if 0 \<le> k then den * 2 ^ nat k \<le> num else den \<le> num * 2 ^ nat (- k)) then k else k - 1)"

text \<open>The integer nearest to \<open>n / d\<close>, the even one of two that are equally near.\<close>

definition roundHalfEven :: "nat \<Rightarrow> nat \<Rightarrow> nat" where
  "roundHalfEven n d =
     (let q = n div d; r = n mod d
      in if 2 * r < d then q else if d < 2 * r then q + 1 else if even q then q else q + 1)"

text \<open>
  The double nearest to \<open>(-1)^s * (num / den) * 2^ex\<close>: the significand is taken at the exponent
  that leaves 53 digits, or at -1074 for a subnormal result, and rounded; a significand that
  rounds up to \<open>2^53\<close> moves to the next exponent.
\<close>

definition roundDouble :: "bool \<Rightarrow> nat \<Rightarrow> nat \<Rightarrow> int \<Rightarrow> double" where
  "roundDouble s num den ex =
     (if num = 0 then Finite s 0 (- 1074)
      else let e = max (floorLog2 num den + ex - 52) (- 1074);
               m = (if e \<le> ex then roundHalfEven (num * 2 ^ nat (ex - e)) den
                    else roundHalfEven num (den * 2 ^ nat (e - ex)))
           in if m = 2 ^ 53 then (if 971 < e + 1 then Infinity s else Finite s (2 ^ 52) (e + 1))
              else (if 971 < e then Infinity s else Finite s m e))"

text \<open>The literal \<open>0.0\<close>, and the double of an integer.\<close>

definition dzero :: double where
  "dzero = Finite False 0 (- 1074)"

definition double_of_int :: "int \<Rightarrow> double" where
  "double_of_int i = roundDouble (i < 0) (nat \<bar>i\<bar>) 1 0"

text \<open>The integer \<open>(-1)^s * m * 2^(e - ex)\<close>, for an exponent \<open>ex\<close> not above \<open>e\<close>.\<close>

definition scaled :: "bool \<Rightarrow> nat \<Rightarrow> int \<Rightarrow> int \<Rightarrow> int" where
  "scaled s m e ex = (if s then - 1 else 1) * int m * 2 ^ nat (e - ex)"

fun dneg :: "double \<Rightarrow> double" where
  "dneg (Finite s m e) = Finite (\<not> s) m e"
| "dneg (Infinity s) = Infinity (\<not> s)"
| "dneg NaN = NaN"

text \<open>
  \<open>a + b\<close>: the exact sum, rounded.  A sum of two zeros is \<open>-0\<close> when both are \<open>-0\<close> and \<open>+0\<close>
  otherwise, a zero added to a number leaves the number, and an exact sum of zero of two
  numbers is \<open>+0\<close>.
\<close>

fun dadd :: "double \<Rightarrow> double \<Rightarrow> double" where
  "dadd (Finite s m e) (Finite t n f) =
     (if m = 0 \<and> n = 0 then Finite (s \<and> t) 0 (- 1074)
      else if m = 0 then roundDouble t n 1 f
      else if n = 0 then roundDouble s m 1 e
      else let ex = min e f; i = scaled s m e ex + scaled t n f ex
           in if i = 0 then Finite False 0 (- 1074) else roundDouble (i < 0) (nat \<bar>i\<bar>) 1 ex)"
| "dadd (Finite s m e) (Infinity t) = Infinity t"
| "dadd (Infinity s) (Finite t n f) = Infinity s"
| "dadd (Infinity s) (Infinity t) = (if s = t then Infinity s else NaN)"
| "dadd NaN b = NaN"
| "dadd a NaN = NaN"

text \<open>\<open>a - b\<close>.\<close>

definition dsub :: "double \<Rightarrow> double \<Rightarrow> double" where
  "dsub a b = dadd a (dneg b)"

text \<open>\<open>a * b\<close>.\<close>

fun dmul :: "double \<Rightarrow> double \<Rightarrow> double" where
  "dmul (Finite s m e) (Finite t n f) = roundDouble (s \<noteq> t) (m * n) 1 (e + f)"
| "dmul (Finite s m e) (Infinity t) = (if m = 0 then NaN else Infinity (s \<noteq> t))"
| "dmul (Infinity s) (Finite t n f) = (if n = 0 then NaN else Infinity (s \<noteq> t))"
| "dmul (Infinity s) (Infinity t) = Infinity (s \<noteq> t)"
| "dmul NaN b = NaN"
| "dmul a NaN = NaN"

text \<open>\<open>a / b\<close>.  A division by zero gives an infinity, and NaN for \<open>0 / 0\<close>.\<close>

fun ddiv :: "double \<Rightarrow> double \<Rightarrow> double" where
  "ddiv (Finite s m e) (Finite t n f) =
     (if n = 0 then (if m = 0 then NaN else Infinity (s \<noteq> t))
      else roundDouble (s \<noteq> t) m n (e - f))"
| "ddiv (Finite s m e) (Infinity t) = Finite (s \<noteq> t) 0 (- 1074)"
| "ddiv (Infinity s) (Finite t n f) = Infinity (s \<noteq> t)"
| "ddiv (Infinity s) (Infinity t) = NaN"
| "ddiv NaN b = NaN"
| "ddiv a NaN = NaN"

text \<open>\<open>a < b\<close> and \<open>a <= b\<close>, false when either side is NaN; the two zeros are equal.\<close>

fun dlt :: "double \<Rightarrow> double \<Rightarrow> bool" where
  "dlt (Finite s m e) (Finite t n f) = (scaled s m e (min e f) < scaled t n f (min e f))"
| "dlt (Finite s m e) (Infinity t) = (\<not> t)"
| "dlt (Infinity s) (Finite t n f) = s"
| "dlt (Infinity s) (Infinity t) = (s \<and> \<not> t)"
| "dlt NaN b = False"
| "dlt a NaN = False"

fun dle :: "double \<Rightarrow> double \<Rightarrow> bool" where
  "dle (Finite s m e) (Finite t n f) = (scaled s m e (min e f) \<le> scaled t n f (min e f))"
| "dle (Finite s m e) (Infinity t) = (\<not> t)"
| "dle (Infinity s) (Finite t n f) = s"
| "dle (Infinity s) (Infinity t) = (s \<or> \<not> t)"
| "dle NaN b = False"
| "dle a NaN = False"

text \<open>The real number a finite double stands for.\<close>

fun valof :: "double \<Rightarrow> real option" where
  "valof (Finite s m e) =
     Some ((if s then - 1 else 1) * real m * (if 0 \<le> e then 2 ^ nat e else 1 / 2 ^ nat (- e)))"
| "valof (Infinity s) = None"
| "valof NaN = None"

section \<open>Buoyancy source term (finiteVolume/processes/buoyancy.cpp)\<close>

text \<open>
  The enumerators \<open>CompressibleFlowFields::RHO\<close>, \<open>RHOE\<close> and \<open>RHOU\<close> are declared in
  \<open>finiteVolume/compressibleFlowFields.hpp\<close>; their values are taken as a parameter.
\<close>

record CompressibleFlowFields =
  RHO :: PetscInt
  RHOE :: PetscInt
  RHOU :: PetscInt

text \<open>The members of the \<open>Buoyancy\<close> process that the source function reads through \<open>ctx\<close>.\<close>

record Buoyancy =
  buoyancyVector :: "double list"
  densityAvg :: PetscReal

text \<open>PETSc's macro \<open>PetscMax(a,b) (((a)<(b)) ? (b) : (a))\<close>.\<close>

definition PetscMax :: "double \<Rightarrow> double \<Rightarrow> double" where
  "PetscMax a b = (if dlt a b then b else a)"

definition EULER_FIELD :: int where
  "EULER_FIELD = 0"

text \<open>
  The loop \<open>for (PetscInt n = 0; n < dim; n++)\<close> of \<open>ComputeBuoyancySource\<close>.  The raw
  arrays \<open>u\<close> and \<open>f\<close> are memory seen through a pointer, indexed by a signed offset.  The parameter \<open>dim\<close> of the source is written \<open>ndim\<close>.
\<close>

function buoyancyLoop ::
  "CompressibleFlowFields \<Rightarrow> Buoyancy \<Rightarrow> PetscInt \<Rightarrow> (int \<Rightarrow> PetscInt) \<Rightarrow> (int \<Rightarrow> PetscScalar)
    \<Rightarrow> PetscReal \<Rightarrow> PetscInt \<Rightarrow> (int \<Rightarrow> PetscScalar) \<Rightarrow> (int \<Rightarrow> PetscScalar)" where
  "buoyancyLoop C ctx ndim uOff u density n f =
     (if n < ndim then
        let f1 = f(RHOU C + n :=
                     PetscMax (dmul (dsub density (densityAvg ctx)) (buoyancyVector ctx ! nat n)) dzero);
            vel = ddiv (u (uOff EULER_FIELD + RHOU C + n)) density;
            f2 = f1(RHOE C := dadd (f1 (RHOE C)) (dmul vel (f1 (RHOU C + n))))
        in buoyancyLoop C ctx ndim uOff u density (n + 1) f2
      else f)"
  by pat_completeness auto
termination
  by (relation "measure (\<lambda>(C, ctx, ndim, uOff, u, density, n, f). nat (ndim - n))") auto

declare buoyancyLoop.simps [simp del]

definition ComputeBuoyancySource ::
  "CompressibleFlowFields \<Rightarrow> PetscInt \<Rightarrow> PetscReal \<Rightarrow> 'cg \<Rightarrow> (int \<Rightarrow> PetscInt) \<Rightarrow> (int \<Rightarrow> PetscScalar)
    \<Rightarrow> (int \<Rightarrow> PetscInt) \<Rightarrow> (int \<Rightarrow> PetscScalar) \<Rightarrow> (int \<Rightarrow> PetscScalar) \<Rightarrow> Buoyancy
    \<Rightarrow> PetscErrorCode \<times> (int \<Rightarrow> PetscScalar)" where
  "ComputeBuoyancySource C ndim time cg uOff u aOff a f ctx =
     (let buoyancyProcess = ctx;
          density = u (uOff EULER_FIELD + RHO C);
          f0 = f(RHO C := dzero);
          f1 = f0(RHOE C := dzero)
      in (0, buoyancyLoop C buoyancyProcess ndim uOff u density 0 f1))"

text \<open>One pass through the loop body, used to unfold the loop.\<close>

definition buoyancyBody ::
  "CompressibleFlowFields \<Rightarrow> Buoyancy \<Rightarrow> (int \<Rightarrow> PetscInt) \<Rightarrow> (int \<Rightarrow> PetscScalar)
    \<Rightarrow> PetscReal \<Rightarrow> PetscInt \<Rightarrow> (int \<Rightarrow> PetscScalar) \<Rightarrow> (int \<Rightarrow> PetscScalar)" where
  "buoyancyBody C ctx uOff u density n f =
     (let f1 = f(RHOU C + n :=
                   PetscMax (dmul (dsub density (densityAvg ctx)) (buoyancyVector ctx ! nat n)) dzero);
          vel = ddiv (u (uOff EULER_FIELD + RHOU C + n)) density
      in f1(RHOE C := dadd (f1 (RHOE C)) (dmul vel (f1 (RHOU C + n)))))"

text \<open>
  What the claim calls the clamped momentum source of direction \<open>n\<close>, and the energy source as
  the sum the loop builds, one direction after the other, from \<open>0.0\<close>.
\<close>

definition clampedSource :: "Buoyancy \<Rightarrow> PetscReal \<Rightarrow> PetscInt \<Rightarrow> PetscScalar" where
  "clampedSource ctx density n =
     (if dlt (dmul (dsub density (densityAvg ctx)) (buoyancyVector ctx ! nat n)) dzero then dzero
      else dmul (dsub density (densityAvg ctx)) (buoyancyVector ctx ! nat n))"

definition energySource ::
  "CompressibleFlowFields \<Rightarrow> Buoyancy \<Rightarrow> (int \<Rightarrow> PetscInt) \<Rightarrow> (int \<Rightarrow> PetscScalar) \<Rightarrow> PetscReal
    \<Rightarrow> PetscInt list \<Rightarrow> PetscScalar \<Rightarrow> PetscScalar" where
  "energySource C ctx uOff u density ns e0 =
     foldl (\<lambda>e n. dadd e (dmul (ddiv (u (uOff EULER_FIELD + RHOU C + n)) density) (clampedSource ctx density n)))
       e0 ns"

text \<open>A concrete cell: the Euler layout of the flow fields, two dimensions.\<close>

definition eulerLayout :: CompressibleFlowFields where
  "eulerLayout = \<lparr>RHO = 0, RHOE = 1, RHOU = 2\<rparr>"

definition buoyancyExample :: Buoyancy where
  "buoyancyExample = \<lparr>buoyancyVector = [double_of_int 1, double_of_int (- 1)], densityAvg = double_of_int 1\<rparr>"

definition eulerExample :: "int \<Rightarrow> PetscScalar" where
  "eulerExample = (\<lambda>_. dzero)(0 := double_of_int 3, 2 := double_of_int 2, 3 := double_of_int 4)"

text \<open>
  The process before any cell was counted: \<open>UpdateAverageDensity\<close> leaves \<open>0.0 / 0\<close> in
  \<open>densityAvg\<close>.  And a cell of density \<open>10^16\<close> under the average density -1.
\<close>

definition buoyancyUncounted :: Buoyancy where
  "buoyancyUncounted = \<lparr>buoyancyVector = [double_of_int 1, double_of_int (- 1)], densityAvg = ddiv dzero (double_of_int 0)\<rparr>"

definition buoyancyLarge :: Buoyancy where
  "buoyancyLarge = \<lparr>buoyancyVector = [double_of_int 1], densityAvg = double_of_int (- 1)\<rparr>"

definition eulerLarge :: "int \<Rightarrow> PetscScalar" where
  "eulerLarge = (\<lambda>_. dzero)(0 := double_of_int 10000000000000000, 2 := double_of_int 2)"

section \<open>The PETSc objects the boundary solver monitor works on\<close>

text \<open>
  \<open>BoundarySolverMonitor::Register\<close> and \<open>BoundarySolverMonitor::Save\<close>
  (monitors/boundarySolverMonitor.cpp) are sequences of calls into the PETSc library.  The
  library is not part of the repository; each routine the two functions call is given here by
  its documented contract, as seen from one process.  Mesh points, handles and error codes are
  integers, scalars are doubles.
\<close>

datatype InsertMode = INSERT_VALUES | ADD_VALUES

text \<open>A \<open>PetscSection\<close>: a chart \<open>[pStart, pEnd)\<close> with a dof count and an offset per point.\<close>

record PetscSection =
  pStart :: PetscInt
  pEnd :: PetscInt
  atlasDof :: "PetscInt list"
  atlasOff :: "PetscInt list"

record PetscFV =
  fvName :: string
  numComponents :: PetscInt
  spatialDimension :: PetscInt

text \<open>A \<open>DMLabel\<close>: the pairs (point, value) that were set, in the order they were set.\<close>

type_synonym DMLabel = "(PetscInt \<times> PetscInt) list"

text \<open>
  A \<open>DMPlex\<close> mesh as one process holds it: the point range of every height stratum (cells at
  height 0, faces at height 1, ...), the cone of every point, which points this process owns
  (the others are ghosts of a neighbouring process), the labels, the local section, the fields,
  for a sub-mesh the index set of the points it was extracted from, and the output sequence.
\<close>

record DM =
  strata :: "(PetscInt \<times> PetscInt) list"
  cone :: "PetscInt \<Rightarrow> PetscInt list"
  owned :: "PetscInt \<Rightarrow> bool"
  labels :: "string \<Rightarrow> DMLabel option"
  localSection :: "PetscSection option"
  dmFields :: "PetscFV list"
  hasDS :: bool
  subpointIS :: "PetscInt list option"
  coordinateDM :: "nat option"
  coordinateDim :: PetscInt
  outputSequence :: "PetscInt \<times> PetscReal"

record Vec =
  entries :: "PetscScalar list"
  blockSize :: PetscInt
  vecDM :: nat
  vecName :: string

text \<open>What a viewer has been given: the topology of a mesh, or a named vector with the output
  sequence number and time of its mesh.\<close>

datatype ViewerRecord =
  TopologyRecord "(PetscInt \<times> PetscInt) list" "PetscInt list option"
  | FieldRecord string PetscInt PetscReal "PetscScalar list"

text \<open>
  The objects live in a heap and are named by handles; a null pointer is \<open>None\<close>.  Vectors taken
  from a mesh with \<open>DMGetLocalVector\<close> or \<open>DMGetGlobalVector\<close> are checked out until they are
  restored, and come with whatever values they last held (\<open>stale\<close>).  \<open>ghostView\<close> is what a
  global-to-local exchange delivers for a local dof, \<open>remoteLeaves\<close> are the contributions the
  other processes send into this process's part of a global vector in a local-to-global
  reduction (global index, value).
\<close>

record Heap =
  dms :: "nat \<Rightarrow> DM option"
  nextDM :: nat
  vecs :: "nat \<Rightarrow> Vec option"
  nextVec :: nat
  checkedOut :: "nat list"
  pendingExchange :: "(nat \<times> nat) option"
  viewerOutput :: "(nat \<times> ViewerRecord) list"
  stale :: "nat \<Rightarrow> PetscScalar"
  ghostView :: "PetscScalar list \<Rightarrow> nat \<Rightarrow> PetscScalar"
  remoteLeaves :: "(nat \<times> PetscScalar) list"

text \<open>A call of a library routine: its name and its integer arguments (handles, points, sizes).\<close>

datatype PetscCall = PetscCall string "int list"

text \<open>
  The world of one process: the calls made so far, the error code the library will report for
  a call (0 for success; any routine may fail), and the heap.
\<close>

record World =
  trace :: "PetscCall list"
  injected :: "PetscCall \<Rightarrow> PetscErrorCode"
  heap :: Heap

definition PETSC_ERR_ARG_WRONG :: PetscErrorCode where "PETSC_ERR_ARG_WRONG = 62"
definition PETSC_ERR_ARG_OUTOFRANGE :: PetscErrorCode where "PETSC_ERR_ARG_OUTOFRANGE = 63"
definition PETSC_ERR_ARG_CORRUPT :: PetscErrorCode where "PETSC_ERR_ARG_CORRUPT = 64"
definition PETSC_ERR_ARG_WRONGSTATE :: PetscErrorCode where "PETSC_ERR_ARG_WRONGSTATE = 73"
definition PETSC_ERR_MEMC :: PetscErrorCode where "PETSC_ERR_MEMC = 78"
definition PETSC_ERR_ARG_NULL :: PetscErrorCode where "PETSC_ERR_ARG_NULL = 85"

type_synonym 'a petsc = "World \<Rightarrow> (PetscErrorCode + 'a) \<times> World"
type_synonym 'a onHeap = "Heap \<Rightarrow> (PetscErrorCode + 'a) \<times> Heap"

text \<open>
  Every routine is logged when it is called.  It fails with the injected error code, leaving
  the heap as it was, or runs on the heap.
\<close>

definition petscCall :: "string \<Rightarrow> int list \<Rightarrow> 'a onHeap \<Rightarrow> 'a petsc" where
  "petscCall routine args body w =
     (let c = PetscCall routine args;
          w1 = w\<lparr>trace := trace w @ [c]\<rparr>
      in if injected w c \<noteq> 0 then (Inl (injected w c), w1)
         else (case body (heap w1) of (r, h) \<Rightarrow> (r, w1\<lparr>heap := h\<rparr>)))"

definition hnd :: "nat option \<Rightarrow> int" where
  "hnd p = (case p of None \<Rightarrow> -1 | Some k \<Rightarrow> int k)"

definition withDM :: "nat option \<Rightarrow> (nat \<Rightarrow> DM \<Rightarrow> 'a onHeap) \<Rightarrow> 'a onHeap" where
  "withDM dm f h =
     (case dm of None \<Rightarrow> (Inl PETSC_ERR_ARG_NULL, h)
      | Some k \<Rightarrow> (case dms h k of None \<Rightarrow> (Inl PETSC_ERR_ARG_CORRUPT, h) | Some d \<Rightarrow> f k d h))"

definition withVec :: "nat option \<Rightarrow> (nat \<Rightarrow> Vec \<Rightarrow> 'a onHeap) \<Rightarrow> 'a onHeap" where
  "withVec v f h =
     (case v of None \<Rightarrow> (Inl PETSC_ERR_ARG_NULL, h)
      | Some k \<Rightarrow> (case vecs h k of None \<Rightarrow> (Inl PETSC_ERR_ARG_CORRUPT, h) | Some x \<Rightarrow> f k x h))"

definition putDM :: "nat \<Rightarrow> DM \<Rightarrow> Heap \<Rightarrow> Heap" where
  "putDM k d h = h\<lparr>dms := (dms h)(k \<mapsto> d)\<rparr>"

definition putVec :: "nat \<Rightarrow> Vec \<Rightarrow> Heap \<Rightarrow> Heap" where
  "putVec k x h = h\<lparr>vecs := (vecs h)(k \<mapsto> x)\<rparr>"

subsection \<open>Mesh topology\<close>

definition stratum :: "DM \<Rightarrow> nat \<Rightarrow> PetscInt \<times> PetscInt" where
  "stratum d height = (if height < length (strata d) then strata d ! height else (0, 0))"

definition inStratum :: "DM \<Rightarrow> nat \<Rightarrow> PetscInt \<Rightarrow> bool" where
  "inStratum d height p = (fst (stratum d height) \<le> p \<and> p < snd (stratum d height))"

definition chart :: "DM \<Rightarrow> PetscInt \<times> PetscInt" where
  "chart d = (if strata d = [] then (0, 0)
              else (Min (set (map fst (strata d))), Max (set (map snd (strata d)))))"

definition DMPlexGetHeightStratum :: "nat option \<Rightarrow> nat \<Rightarrow> (PetscInt \<times> PetscInt) petsc" where
  "DMPlexGetHeightStratum dm height =
     petscCall ''DMPlexGetHeightStratum'' [hnd dm, int height]
       (withDM dm (\<lambda>k d h. (Inr (stratum d height), h)))"

text \<open>The transitive closure of a point along cones, the point itself first.\<close>

fun closureN :: "(PetscInt \<Rightarrow> PetscInt list) \<Rightarrow> nat \<Rightarrow> PetscInt \<Rightarrow> PetscInt list" where
  "closureN c 0 p = [p]"
| "closureN c (Suc n) p = p # concat (map (closureN c n) (c p))"

definition DMPlexGetTransitiveClosure :: "DM \<Rightarrow> PetscInt \<Rightarrow> PetscInt list" where
  "DMPlexGetTransitiveClosure d p = closureN (cone d) (length (strata d)) p"

definition DMGetCoordinateDM :: "nat option \<Rightarrow> (nat option) petsc" where
  "DMGetCoordinateDM dm =
     petscCall ''DMGetCoordinateDM'' [hnd dm] (withDM dm (\<lambda>k d h. (Inr (coordinateDM d), h)))"

text \<open>\<open>DMClone\<close>: a new mesh sharing the topology; section, fields and output sequence are not copied.\<close>

definition DMClone :: "nat option \<Rightarrow> (nat option) petsc" where
  "DMClone dm =
     petscCall ''DMClone'' [hnd dm]
       (withDM dm (\<lambda>k d h.
          (Inr (Some (nextDM h)),
           (putDM (nextDM h)
              (d\<lparr>localSection := None, dmFields := [], hasDS := False, subpointIS := None,
                 outputSequence := (-1, dzero)\<rparr>) h)\<lparr>nextDM := Suc (nextDM h)\<rparr>)))"

definition DMSetCoordinateDM :: "nat option \<Rightarrow> nat option \<Rightarrow> unit petsc" where
  "DMSetCoordinateDM dm cdm =
     petscCall ''DMSetCoordinateDM'' [hnd dm, hnd cdm]
       (withDM dm (\<lambda>k d h. (Inr (), putDM k (d\<lparr>coordinateDM := cdm\<rparr>) h)))"

definition DMGetCoordinateDim :: "nat option \<Rightarrow> PetscInt petsc" where
  "DMGetCoordinateDim dm =
     petscCall ''DMGetCoordinateDim'' [hnd dm] (withDM dm (\<lambda>k d h. (Inr (coordinateDim d), h)))"

definition DMDestroy :: "nat option \<Rightarrow> unit petsc" where
  "DMDestroy dm =
     petscCall ''DMDestroy'' [hnd dm]
       (\<lambda>h. case dm of None \<Rightarrow> (Inr (), h) | Some k \<Rightarrow> (Inr (), h\<lparr>dms := (dms h)(k := None)\<rparr>))"

subsection \<open>Labels\<close>

definition getLabel :: "DM \<Rightarrow> string \<Rightarrow> DMLabel option" where
  "getLabel d name = labels d name"

definition setLabel :: "DM \<Rightarrow> string \<Rightarrow> DMLabel \<Rightarrow> DM" where
  "setLabel d name l = d\<lparr>labels := (labels d)(name \<mapsto> l)\<rparr>"

definition DMCreateLabel :: "nat option \<Rightarrow> string \<Rightarrow> unit petsc" where
  "DMCreateLabel dm name =
     petscCall ''DMCreateLabel'' [hnd dm]
       (withDM dm (\<lambda>k d h.
          (Inr (), (case getLabel d name of None \<Rightarrow> putDM k (setLabel d name []) h | Some l \<Rightarrow> h))))"

text \<open>A label handle is the mesh that owns the label and the label's name; \<open>DMGetLabel\<close> gives a
  null handle when the mesh has no label of that name.\<close>

definition DMGetLabel :: "nat option \<Rightarrow> string \<Rightarrow> ((nat \<times> string) option) petsc" where
  "DMGetLabel dm name =
     petscCall ''DMGetLabel'' [hnd dm]
       (withDM dm (\<lambda>k d h.
          (Inr (case getLabel d name of None \<Rightarrow> None | Some l \<Rightarrow> Some (k, name)), h)))"

definition labelSetValue :: "DMLabel \<Rightarrow> PetscInt \<Rightarrow> PetscInt \<Rightarrow> DMLabel" where
  "labelSetValue l p v = (if v = -1 \<or> (p, v) \<in> set l then l else l @ [(p, v)])"

definition withLabel ::
  "(nat \<times> string) option \<Rightarrow> (nat \<Rightarrow> DM \<Rightarrow> string \<Rightarrow> DMLabel \<Rightarrow> 'a onHeap) \<Rightarrow> 'a onHeap" where
  "withLabel label f h =
     (case label of None \<Rightarrow> (Inl PETSC_ERR_ARG_NULL, h)
      | Some (k, name) \<Rightarrow>
          (case dms h k of None \<Rightarrow> (Inl PETSC_ERR_ARG_CORRUPT, h)
           | Some d \<Rightarrow>
               (case getLabel d name of None \<Rightarrow> (Inl PETSC_ERR_ARG_CORRUPT, h)
                | Some l \<Rightarrow> f k d name l h)))"

definition DMLabelSetValue :: "(nat \<times> string) option \<Rightarrow> PetscInt \<Rightarrow> PetscInt \<Rightarrow> unit petsc" where
  "DMLabelSetValue label point val =
     petscCall ''DMLabelSetValue'' [point, val]
       (withLabel label (\<lambda>k d name l h.
          (Inr (), putDM k (setLabel d name (labelSetValue l point val)) h)))"

text \<open>The points of a label that carry a value, sorted, each once (\<open>DMLabelGetStratumIS\<close>).\<close>

definition DMLabelGetStratumIS :: "DMLabel \<Rightarrow> PetscInt \<Rightarrow> PetscInt list" where
  "DMLabelGetStratumIS l v = sort (remdups (map fst (filter (\<lambda>pv. snd pv = v) l)))"

text \<open>
  \<open>DMPlexLabelComplete\<close>: every point in the closure of a labelled point receives the value of
  that point.  (The exchange of label values with neighbouring processes is outside this
  single-process view.)
\<close>

definition labelComplete :: "DM \<Rightarrow> DMLabel \<Rightarrow> DMLabel" where
  "labelComplete d l =
     fold (\<lambda>pv acc. fold (\<lambda>c acc'. labelSetValue acc' c (snd pv)) (DMPlexGetTransitiveClosure d (fst pv)) acc) l l"

definition DMPlexLabelComplete :: "nat option \<Rightarrow> (nat \<times> string) option \<Rightarrow> unit petsc" where
  "DMPlexLabelComplete dm label =
     petscCall ''DMPlexLabelComplete'' [hnd dm]
       (withDM dm (\<lambda>k0 d0. withLabel label (\<lambda>k d name l h.
          (Inr (), putDM k (setLabel d name (labelComplete d0 l)) h))))"

subsection \<open>Sections\<close>

definition PetscSectionCreate :: "PetscSection petsc" where
  "PetscSectionCreate =
     petscCall ''PetscSectionCreate'' []
       (\<lambda>h. (Inr \<lparr>pStart = -1, pEnd = -1, atlasDof = [], atlasOff = []\<rparr>, h))"

definition PetscSectionSetChart :: "PetscSection \<Rightarrow> PetscInt \<Rightarrow> PetscInt \<Rightarrow> PetscSection petsc" where
  "PetscSectionSetChart s a b =
     petscCall ''PetscSectionSetChart'' [a, b]
       (\<lambda>h. (Inr (s\<lparr>pStart := a, pEnd := b, atlasDof := replicate (nat (b - a)) 0,
                      atlasOff := replicate (nat (b - a)) 0\<rparr>), h))"

text \<open>\<open>PetscSectionSetDof\<close> refuses a point outside the chart.\<close>

definition PetscSectionSetDof :: "PetscSection \<Rightarrow> PetscInt \<Rightarrow> PetscInt \<Rightarrow> PetscSection petsc" where
  "PetscSectionSetDof s point numDof =
     petscCall ''PetscSectionSetDof'' [point, numDof]
       (\<lambda>h. if point < pStart s \<or> pEnd s \<le> point then (Inl PETSC_ERR_ARG_OUTOFRANGE, h)
            else (Inr (s\<lparr>atlasDof := (atlasDof s)[nat (point - pStart s) := numDof]\<rparr>), h))"

text \<open>\<open>PetscSectionSetUp\<close>: the offset of a point is the sum of the dof counts before it.\<close>

fun offsetsFrom :: "PetscInt \<Rightarrow> PetscInt list \<Rightarrow> PetscInt list" where
  "offsetsFrom off [] = []"
| "offsetsFrom off (d # ds) = off # offsetsFrom (off + d) ds"

definition sectionSetUp :: "PetscSection \<Rightarrow> PetscSection" where
  "sectionSetUp s = s\<lparr>atlasOff := offsetsFrom 0 (atlasDof s)\<rparr>"

definition PetscSectionSetUp :: "PetscSection \<Rightarrow> PetscSection petsc" where
  "PetscSectionSetUp s = petscCall ''PetscSectionSetUp'' [] (\<lambda>h. (Inr (sectionSetUp s), h))"

definition PetscSectionDestroy :: "PetscSection \<Rightarrow> unit petsc" where
  "PetscSectionDestroy s = petscCall ''PetscSectionDestroy'' [] (\<lambda>h. (Inr (), h))"

definition DMSetLocalSection :: "nat option \<Rightarrow> PetscSection \<Rightarrow> unit petsc" where
  "DMSetLocalSection dm s =
     petscCall ''DMSetLocalSection'' [hnd dm]
       (withDM dm (\<lambda>k d h. (Inr (), putDM k (d\<lparr>localSection := Some s\<rparr>) h)))"

definition inChart :: "PetscSection \<Rightarrow> PetscInt \<Rightarrow> bool" where
  "inChart s p = (pStart s \<le> p \<and> p < pEnd s)"

definition sectionDof :: "PetscSection \<Rightarrow> PetscInt \<Rightarrow> PetscInt" where
  "sectionDof s p = atlasDof s ! nat (p - pStart s)"

definition sectionOffset :: "PetscSection \<Rightarrow> PetscInt \<Rightarrow> PetscInt" where
  "sectionOffset s p = atlasOff s ! nat (p - pStart s)"

definition storageSize :: "PetscSection \<Rightarrow> nat" where
  "storageSize s = nat (sum_list (atlasDof s))"

text \<open>
  The local section of a mesh: the one that was set, or else the one PETSc derives from the
  fields, which for finite-volume fields puts the components of all fields on every cell.
\<close>

definition sectionFromFields :: "DM \<Rightarrow> PetscSection" where
  "sectionFromFields d =
     sectionSetUp
       \<lparr>pStart = fst (chart d), pEnd = snd (chart d),
        atlasDof = map (\<lambda>p. if inStratum d 0 p then sum_list (map numComponents (dmFields d)) else 0)
                     [fst (chart d)..snd (chart d) - 1],
        atlasOff = []\<rparr>"

definition DMGetLocalSection :: "DM \<Rightarrow> PetscSection" where
  "DMGetLocalSection d = (case localSection d of Some s \<Rightarrow> s | None \<Rightarrow> sectionFromFields d)"

text \<open>The block size PETSc gives a vector built on a section: the dof count that all points
  with dofs share, and 1 when there is none.\<close>

definition sectionBlockSize :: "PetscInt list \<Rightarrow> PetscInt" where
  "sectionBlockSize dofs =
     (case filter (\<lambda>n. 0 < n) dofs of [] \<Rightarrow> 1
      | n # ns \<Rightarrow> if list_all (\<lambda>m. m = n) ns then n else 1)"

subsection \<open>Finite-volume fields\<close>

definition PetscFVCreate :: "PetscFV petsc" where
  "PetscFVCreate =
     petscCall ''PetscFVCreate'' []
       (\<lambda>h. (Inr \<lparr>fvName = [], numComponents = 1, spatialDimension = 1\<rparr>, h))"

definition PetscObjectSetName_FV :: "PetscFV \<Rightarrow> string \<Rightarrow> PetscFV petsc" where
  "PetscObjectSetName_FV fvm name =
     petscCall ''PetscObjectSetName'' [] (\<lambda>h. (Inr (fvm\<lparr>fvName := name\<rparr>), h))"

definition PetscFVSetFromOptions :: "PetscFV \<Rightarrow> PetscFV petsc" where
  "PetscFVSetFromOptions fvm = petscCall ''PetscFVSetFromOptions'' [] (\<lambda>h. (Inr fvm, h))"

definition PetscFVSetNumComponents :: "PetscFV \<Rightarrow> PetscInt \<Rightarrow> PetscFV petsc" where
  "PetscFVSetNumComponents fvm n =
     petscCall ''PetscFVSetNumComponents'' [n] (\<lambda>h. (Inr (fvm\<lparr>numComponents := n\<rparr>), h))"

definition PetscFVSetSpatialDimension :: "PetscFV \<Rightarrow> PetscInt \<Rightarrow> PetscFV petsc" where
  "PetscFVSetSpatialDimension fvm n =
     petscCall ''PetscFVSetSpatialDimension'' [n] (\<lambda>h. (Inr (fvm\<lparr>spatialDimension := n\<rparr>), h))"

definition DMAddField :: "nat option \<Rightarrow> PetscFV \<Rightarrow> unit petsc" where
  "DMAddField dm fvm =
     petscCall ''DMAddField'' [hnd dm]
       (withDM dm (\<lambda>k d h. (Inr (), putDM k (d\<lparr>dmFields := dmFields d @ [fvm]\<rparr>) h)))"

definition PetscFVDestroy :: "PetscFV \<Rightarrow> unit petsc" where
  "PetscFVDestroy fvm = petscCall ''PetscFVDestroy'' [] (\<lambda>h. (Inr (), h))"

definition DMCreateDS :: "nat option \<Rightarrow> unit petsc" where
  "DMCreateDS dm =
     petscCall ''DMCreateDS'' [hnd dm]
       (withDM dm (\<lambda>k d h. (Inr (), putDM k (d\<lparr>hasDS := True\<rparr>) h)))"

subsection \<open>Extracting a sub-mesh\<close>

text \<open>
  \<open>DMPlexFilter\<close> builds a mesh of the points that carry the value in the label.  The labelled
  points of the least height become the cells of the sub-mesh, numbered from 0 in increasing
  order of the point they come from; the vertices follow, then the strata in between.  The
  index set of the sub-mesh (\<open>DMPlexGetSubpointIS\<close>) covers the whole chart of the sub-mesh and
  holds, for every sub-mesh point, the point it was extracted from.
\<close>

definition labelledAt :: "DM \<Rightarrow> PetscInt list \<Rightarrow> nat \<Rightarrow> PetscInt list" where
  "labelledAt d pts height = filter (inStratum d height) pts"

definition labelledHeights :: "DM \<Rightarrow> PetscInt list \<Rightarrow> nat list" where
  "labelledHeights d pts = filter (\<lambda>n. labelledAt d pts n \<noteq> []) [0..<length (strata d)]"

definition submeshOrder :: "nat list \<Rightarrow> nat list" where
  "submeshOrder hs =
     (case hs of [] \<Rightarrow> [] | c # rest \<Rightarrow> if rest = [] then [c] else c # last rest # butlast rest)"

definition submeshFirst :: "DM \<Rightarrow> PetscInt list \<Rightarrow> nat list \<Rightarrow> nat \<Rightarrow> PetscInt" where
  "submeshFirst d pts ord height =
     int (length (concat (map (labelledAt d pts) (takeWhile (\<lambda>n. n \<noteq> height) ord))))"

definition submeshPoints :: "DM \<Rightarrow> PetscInt list \<Rightarrow> PetscInt list" where
  "submeshPoints d pts = concat (map (labelledAt d pts) (submeshOrder (labelledHeights d pts)))"

definition submeshStrata :: "DM \<Rightarrow> PetscInt list \<Rightarrow> (PetscInt \<times> PetscInt) list" where
  "submeshStrata d pts =
     map (\<lambda>n. (submeshFirst d pts (submeshOrder (labelledHeights d pts)) n,
               submeshFirst d pts (submeshOrder (labelledHeights d pts)) n + int (length (labelledAt d pts n))))
       (labelledHeights d pts)"

fun indexOf :: "PetscInt list \<Rightarrow> PetscInt \<Rightarrow> PetscInt" where
  "indexOf [] q = 0"
| "indexOf (p # ps) q = (if p = q then 0 else 1 + indexOf ps q)"

definition submesh :: "DM \<Rightarrow> PetscInt list \<Rightarrow> DM" where
  "submesh d pts =
     \<lparr>strata = submeshStrata d pts,
      cone = (\<lambda>p. if 0 \<le> p \<and> p < int (length (submeshPoints d pts))
                  then map (indexOf (submeshPoints d pts))
                         (filter (\<lambda>q. q \<in> set (submeshPoints d pts)) (cone d (submeshPoints d pts ! nat p)))
                  else []),
      owned = (\<lambda>p. 0 \<le> p \<and> p < int (length (submeshPoints d pts)) \<and> owned d (submeshPoints d pts ! nat p)),
      labels = (\<lambda>name. None),
      localSection = None,
      dmFields = [],
      hasDS = False,
      subpointIS = Some (submeshPoints d pts),
      coordinateDM = None,
      coordinateDim = coordinateDim d,
      outputSequence = (-1, dzero)\<rparr>"

definition DMPlexFilter :: "nat option \<Rightarrow> (nat \<times> string) option \<Rightarrow> PetscInt \<Rightarrow> (nat option) petsc" where
  "DMPlexFilter dm label val =
     petscCall ''DMPlexFilter'' [hnd dm, val]
       (withDM dm (\<lambda>k0 d0. withLabel label (\<lambda>k d name l h.
          (Inr (Some (nextDM h)),
           (putDM (nextDM h) (submesh d0 (DMLabelGetStratumIS l val)) h)\<lparr>nextDM := Suc (nextDM h)\<rparr>))))"

definition DMPlexGetSubpointIS :: "nat option \<Rightarrow> (PetscInt list option) petsc" where
  "DMPlexGetSubpointIS dm =
     petscCall ''DMPlexGetSubpointIS'' [hnd dm] (withDM dm (\<lambda>k d h. (Inr (subpointIS d), h)))"

definition ISGetIndices :: "PetscInt list option \<Rightarrow> (PetscInt list) petsc" where
  "ISGetIndices is =
     petscCall ''ISGetIndices'' []
       (\<lambda>h. case is of None \<Rightarrow> (Inl PETSC_ERR_ARG_NULL, h) | Some idx \<Rightarrow> (Inr idx, h))"

definition ISRestoreIndices :: "PetscInt list option \<Rightarrow> unit petsc" where
  "ISRestoreIndices is =
     petscCall ''ISRestoreIndices'' []
       (\<lambda>h. case is of None \<Rightarrow> (Inl PETSC_ERR_ARG_NULL, h) | Some idx \<Rightarrow> (Inr (), h))"

subsection \<open>Vectors\<close>

text \<open>A vector built on a list of dof counts; its entries are what the pooled vector last held.\<close>

definition newVec :: "nat \<Rightarrow> PetscInt list \<Rightarrow> Heap \<Rightarrow> Vec" where
  "newVec k dofs h =
     \<lparr>entries = map (stale h) [0..<nat (sum_list dofs)], blockSize = sectionBlockSize dofs,
      vecDM = k, vecName = []\<rparr>"

definition checkOut :: "Vec \<Rightarrow> (nat option) onHeap" where
  "checkOut x h =
     (Inr (Some (nextVec h)),
      (putVec (nextVec h) x h)\<lparr>nextVec := Suc (nextVec h), checkedOut := nextVec h # checkedOut h\<rparr>)"

definition DMGetLocalVector :: "nat option \<Rightarrow> (nat option) petsc" where
  "DMGetLocalVector dm =
     petscCall ''DMGetLocalVector'' [hnd dm]
       (withDM dm (\<lambda>k d h. checkOut (newVec k (atlasDof (DMGetLocalSection d)) h) h))"

text \<open>A global vector holds the dofs of the points this process owns.\<close>

definition globalDofs :: "DM \<Rightarrow> PetscInt list" where
  "globalDofs d =
     map (\<lambda>p. if owned d p then sectionDof (DMGetLocalSection d) p else 0)
       [pStart (DMGetLocalSection d)..pEnd (DMGetLocalSection d) - 1]"

definition DMGetGlobalVector :: "nat option \<Rightarrow> (nat option) petsc" where
  "DMGetGlobalVector dm =
     petscCall ''DMGetGlobalVector'' [hnd dm]
       (withDM dm (\<lambda>k d h. checkOut (newVec k (globalDofs d) h) h))"

definition restoreVec :: "nat option \<Rightarrow> nat option \<Rightarrow> unit onHeap" where
  "restoreVec dm v =
     withDM dm (\<lambda>k d. withVec v (\<lambda>kv x h.
       if kv \<in> set (checkedOut h) \<and> vecDM x = k
       then (Inr (), h\<lparr>checkedOut := remove1 kv (checkedOut h)\<rparr>)
       else (Inl PETSC_ERR_ARG_WRONG, h)))"

definition DMRestoreLocalVector :: "nat option \<Rightarrow> nat option \<Rightarrow> unit petsc" where
  "DMRestoreLocalVector dm v = petscCall ''DMRestoreLocalVector'' [hnd dm, hnd v] (restoreVec dm v)"

definition DMRestoreGlobalVector :: "nat option \<Rightarrow> nat option \<Rightarrow> unit petsc" where
  "DMRestoreGlobalVector dm v = petscCall ''DMRestoreGlobalVector'' [hnd dm, hnd v] (restoreVec dm v)"

definition VecZeroEntries :: "nat option \<Rightarrow> unit petsc" where
  "VecZeroEntries v =
     petscCall ''VecZeroEntries'' [hnd v]
       (withVec v (\<lambda>k x h. (Inr (), putVec k (x\<lparr>entries := replicate (length (entries x)) dzero\<rparr>) h)))"

definition VecGetBlockSize :: "nat option \<Rightarrow> PetscInt petsc" where
  "VecGetBlockSize v =
     petscCall ''VecGetBlockSize'' [hnd v] (withVec v (\<lambda>k x h. (Inr (blockSize x), h)))"

definition PetscObjectSetName_Vec :: "nat option \<Rightarrow> string \<Rightarrow> unit petsc" where
  "PetscObjectSetName_Vec v name =
     petscCall ''PetscObjectSetName'' [hnd v]
       (withVec v (\<lambda>k x h. (Inr (), putVec k (x\<lparr>vecName := name\<rparr>) h)))"

text \<open>
  A pointer into the data of a vector: the vector and an offset.  \<open>VecGetArray\<close> gives the null
  pointer for a vector without entries.
\<close>

type_synonym ScalarPtr = "nat \<times> PetscInt"

definition VecGetArrayRead :: "nat option \<Rightarrow> (ScalarPtr option) petsc" where
  "VecGetArrayRead v =
     petscCall ''VecGetArrayRead'' [hnd v]
       (withVec v (\<lambda>k x h. (Inr (if entries x = [] then None else Some (k, 0)), h)))"

definition VecGetArray :: "nat option \<Rightarrow> (ScalarPtr option) petsc" where
  "VecGetArray v =
     petscCall ''VecGetArray'' [hnd v]
       (withVec v (\<lambda>k x h. (Inr (if entries x = [] then None else Some (k, 0)), h)))"

definition VecRestoreArrayRead :: "nat option \<Rightarrow> ScalarPtr option \<Rightarrow> unit petsc" where
  "VecRestoreArrayRead v array =
     petscCall ''VecRestoreArrayRead'' [hnd v] (withVec v (\<lambda>k x h. (Inr (), h)))"

definition VecRestoreArray :: "nat option \<Rightarrow> ScalarPtr option \<Rightarrow> unit petsc" where
  "VecRestoreArray v array =
     petscCall ''VecRestoreArray'' [hnd v] (withVec v (\<lambda>k x h. (Inr (), h)))"

text \<open>
  \<open>DMPlexPointLocalRead\<close> and \<open>DMPlexPointLocalRef\<close>: the address of the dofs of a point in an
  array laid out by the local section of the mesh, and the null pointer for a point without
  dofs.  A point outside the chart of the section is refused.
\<close>

definition pointLocal :: "nat option \<Rightarrow> PetscInt \<Rightarrow> ScalarPtr \<Rightarrow> (ScalarPtr option) onHeap" where
  "pointLocal dm point array =
     withDM dm (\<lambda>k d h.
       if \<not> inChart (DMGetLocalSection d) point then (Inl PETSC_ERR_ARG_OUTOFRANGE, h)
       else (Inr (if 0 < sectionDof (DMGetLocalSection d) point
                  then Some (fst array, snd array + sectionOffset (DMGetLocalSection d) point)
                  else None), h))"

definition DMPlexPointLocalRead :: "nat option \<Rightarrow> PetscInt \<Rightarrow> ScalarPtr \<Rightarrow> (ScalarPtr option) petsc" where
  "DMPlexPointLocalRead dm point array =
     petscCall ''DMPlexPointLocalRead'' [hnd dm, point] (pointLocal dm point array)"

definition DMPlexPointLocalRef :: "nat option \<Rightarrow> PetscInt \<Rightarrow> ScalarPtr \<Rightarrow> (ScalarPtr option) petsc" where
  "DMPlexPointLocalRef dm point array =
     petscCall ''DMPlexPointLocalRef'' [hnd dm, point] (pointLocal dm point array)"

text \<open>
  \<open>PetscArraycpy\<close> copies \<open>n\<close> scalars.  A copy that leaves the data of either vector is undefined
  in C; here it is a failing call.
\<close>

definition copyInto :: "PetscScalar list \<Rightarrow> nat \<Rightarrow> PetscScalar list \<Rightarrow> PetscScalar list" where
  "copyInto dst pos src = take pos dst @ src @ drop (pos + length src) dst"

definition PetscArraycpy :: "ScalarPtr \<Rightarrow> ScalarPtr \<Rightarrow> PetscInt \<Rightarrow> unit petsc" where
  "PetscArraycpy dst src n =
     petscCall ''PetscArraycpy'' [snd dst, snd src, n]
       (\<lambda>h. case (vecs h (fst dst), vecs h (fst src)) of
              (Some D, Some S) \<Rightarrow>
                if 0 \<le> n \<and> 0 \<le> snd src \<and> snd src + n \<le> int (length (entries S))
                   \<and> 0 \<le> snd dst \<and> snd dst + n \<le> int (length (entries D))
                then (Inr (), putVec (fst dst)
                        (D\<lparr>entries := copyInto (entries D) (nat (snd dst))
                                         (take (nat n) (drop (nat (snd src)) (entries S)))\<rparr>) h)
                else (Inl PETSC_ERR_MEMC, h)
            | _ \<Rightarrow> (Inl PETSC_ERR_MEMC, h))"

subsection \<open>Exchanges between local and global vectors\<close>

text \<open>
  \<open>DMGlobalToLocalBegin\<close> starts the exchange that fills a local (ghost-inclusive) vector from a
  global one, \<open>DMGlobalToLocalEnd\<close> completes it.
\<close>

definition DMGlobalToLocalBegin :: "nat option \<Rightarrow> nat option \<Rightarrow> InsertMode \<Rightarrow> nat option \<Rightarrow> unit petsc" where
  "DMGlobalToLocalBegin dm g mode l =
     petscCall ''DMGlobalToLocalBegin'' [hnd dm, hnd g, hnd l]
       (withDM dm (\<lambda>k d. withVec g (\<lambda>kg G. withVec l (\<lambda>kl L h.
          (Inr (), h\<lparr>pendingExchange := Some (kg, kl)\<rparr>)))))"

definition DMGlobalToLocalEnd :: "nat option \<Rightarrow> nat option \<Rightarrow> InsertMode \<Rightarrow> nat option \<Rightarrow> unit petsc" where
  "DMGlobalToLocalEnd dm g mode l =
     petscCall ''DMGlobalToLocalEnd'' [hnd dm, hnd g, hnd l]
       (withDM dm (\<lambda>k d. withVec g (\<lambda>kg G. withVec l (\<lambda>kl L h.
          if pendingExchange h = Some (kg, kl)
          then (Inr (), (putVec kl (L\<lparr>entries := map (ghostView h (entries G)) [0..<length (entries L)]\<rparr>) h)
                          \<lparr>pendingExchange := None\<rparr>)
          else (Inl PETSC_ERR_ARG_WRONGSTATE, h)))))"

text \<open>
  The star forest of a section: for every local dof, the global dof of this process it belongs
  to, or \<open>None\<close> when its point is owned by another process.
\<close>

fun sectionSFFrom :: "DM \<Rightarrow> PetscSection \<Rightarrow> nat \<Rightarrow> PetscInt list \<Rightarrow> nat option list" where
  "sectionSFFrom d s g [] = []"
| "sectionSFFrom d s g (p # ps) =
     (if owned d p
      then map Some [g..<g + nat (sectionDof s p)] @ sectionSFFrom d s (g + nat (sectionDof s p)) ps
      else replicate (nat (sectionDof s p)) None @ sectionSFFrom d s g ps)"

definition sectionSF :: "DM \<Rightarrow> nat option list" where
  "sectionSF d =
     sectionSFFrom d (DMGetLocalSection d) 0 [pStart (DMGetLocalSection d)..pEnd (DMGetLocalSection d) - 1]"

text \<open>The local values whose dof belongs to global dof \<open>j\<close>, and the values the other
  processes send to \<open>j\<close>.\<close>

definition leafValues :: "nat option list \<Rightarrow> PetscScalar list \<Rightarrow> nat \<Rightarrow> PetscScalar list" where
  "leafValues sf l j = map snd (filter (\<lambda>tx. fst tx = Some j) (zip sf l))"

definition remoteValues :: "(nat \<times> PetscScalar) list \<Rightarrow> nat \<Rightarrow> PetscScalar list" where
  "remoteValues leaves j = map snd (filter (\<lambda>tx. fst tx = j) leaves)"

definition insertLeaf :: "nat option list \<Rightarrow> PetscScalar list \<Rightarrow> nat \<Rightarrow> PetscScalar \<Rightarrow> PetscScalar" where
  "insertLeaf sf l j old =
     (case filter (\<lambda>tx. fst tx = Some j) (zip sf l) of [] \<Rightarrow> old | tx # txs \<Rightarrow> snd (last (tx # txs)))"

text \<open>
  \<open>DMLocalToGlobal\<close>: with \<open>ADD_VALUES\<close> every local value that belongs to a global dof is added
  to what the dof holds, one after the other, those of this process and then those of the
  others; with \<open>INSERT_VALUES\<close> the dof is overwritten with this process's own value.
\<close>

definition localToGlobal ::
  "InsertMode \<Rightarrow> nat option list \<Rightarrow> (nat \<times> PetscScalar) list \<Rightarrow> PetscScalar list \<Rightarrow> PetscScalar list
    \<Rightarrow> PetscScalar list" where
  "localToGlobal mode sf remote l g =
     (case mode of
        ADD_VALUES \<Rightarrow> map (\<lambda>j. foldl dadd (g ! j) (leafValues sf l j @ remoteValues remote j))
                        [0..<length g]
      | INSERT_VALUES \<Rightarrow> map (\<lambda>j. insertLeaf sf l j (g ! j)) [0..<length g])"

definition DMLocalToGlobal :: "nat option \<Rightarrow> nat option \<Rightarrow> InsertMode \<Rightarrow> nat option \<Rightarrow> unit petsc" where
  "DMLocalToGlobal dm l mode g =
     petscCall ''DMLocalToGlobal'' [hnd dm, hnd l, hnd g]
       (withDM dm (\<lambda>k d. withVec l (\<lambda>kl L. withVec g (\<lambda>kg G h.
          if length (entries L) = length (sectionSF d)
             \<and> length (entries G) = nat (sum_list (globalDofs d))
          then (Inr (), putVec kg
                  (G\<lparr>entries := localToGlobal mode (sectionSF d) (remoteLeaves h) (entries L) (entries G)\<rparr>) h)
          else (Inl PETSC_ERR_ARG_WRONG, h)))))"

subsection \<open>Output\<close>

definition DMSetOutputSequenceNumber :: "nat option \<Rightarrow> PetscInt \<Rightarrow> PetscReal \<Rightarrow> unit petsc" where
  "DMSetOutputSequenceNumber dm num val =
     petscCall ''DMSetOutputSequenceNumber'' [hnd dm, num]
       (withDM dm (\<lambda>k d h. (Inr (), putDM k (d\<lparr>outputSequence := (num, val)\<rparr>) h)))"

definition DMView :: "nat option \<Rightarrow> nat \<Rightarrow> unit petsc" where
  "DMView dm viewer =
     petscCall ''DMView'' [hnd dm, int viewer]
       (withDM dm (\<lambda>k d h.
          (Inr (), h\<lparr>viewerOutput := viewerOutput h @ [(viewer, TopologyRecord (strata d) (subpointIS d))]\<rparr>)))"

text \<open>\<open>VecView\<close> writes the vector under its name, tagged with the output sequence of its mesh.\<close>

definition VecView :: "nat option \<Rightarrow> nat \<Rightarrow> unit petsc" where
  "VecView v viewer =
     petscCall ''VecView'' [hnd v, int viewer]
       (withVec v (\<lambda>k x. withDM (Some (vecDM x)) (\<lambda>kd d h.
          (Inr (), h\<lparr>viewerOutput := viewerOutput h @
                       [(viewer, FieldRecord (vecName x) (fst (outputSequence d)) (snd (outputSequence d))
                                   (entries x))]\<rparr>))))"

section \<open>The boundary solver monitor (monitors/boundarySolverMonitor.cpp)\<close>

subsection \<open>Solvers and the monitor object\<close>

text \<open>An entry of the boundary geometry: \<open>gradientStencil.geometry.faceId\<close>.\<close>

record Geometry =
  faceId :: PetscInt

record GradientStencil =
  geometry :: Geometry

text \<open>
  What the monitor reads of a solver: its identifier, the mesh of its sub-domain and the
  solution vector.  A boundary solver adds the output components, the boundary geometry, the
  output functions and the routine that computes the boundary values: given the time, the
  local solution, the local boundary vector and the output functions, it returns an error code
  and the boundary vector it has filled.
\<close>

record Solver =
  solverId :: string
  subDomainDM :: "nat option"
  solutionVector :: "nat option"

record BoundarySolver = Solver +
  outputComponents :: "string list"
  boundaryGeometry :: "GradientStencil list"
  outputFunctions :: "string list"
  computeRHS :: "PetscReal \<Rightarrow> PetscScalar list \<Rightarrow> PetscScalar list \<Rightarrow> string list
                  \<Rightarrow> PetscErrorCode \<times> PetscScalar list"

text \<open>A \<open>std::shared_ptr<solver::Solver>\<close> with the dynamic type of the object it points to.\<close>

datatype SolverPtr = BoundarySolverPtr BoundarySolver | OtherSolverPtr Solver

definition dynamic_pointer_cast :: "SolverPtr \<Rightarrow> BoundarySolver option" where
  "dynamic_pointer_cast p = (case p of BoundarySolverPtr b \<Rightarrow> Some b | OtherSolverPtr s \<Rightarrow> None)"

definition GetSolverId :: "SolverPtr \<Rightarrow> string" where
  "GetSolverId p = (case p of BoundarySolverPtr b \<Rightarrow> solverId b | OtherSolverPtr s \<Rightarrow> solverId s)"

definition GetDM :: "SolverPtr option \<Rightarrow> nat option" where
  "GetDM p = (case p of None \<Rightarrow> None
              | Some (BoundarySolverPtr b) \<Rightarrow> subDomainDM b
              | Some (OtherSolverPtr s) \<Rightarrow> subDomainDM s)"

definition GetSolutionVector :: "SolverPtr option \<Rightarrow> nat option" where
  "GetSolutionVector p = (case p of None \<Rightarrow> None
              | Some (BoundarySolverPtr b) \<Rightarrow> solutionVector b
              | Some (OtherSolverPtr s) \<Rightarrow> solutionVector s)"

text \<open>The members of the monitor; \<open>solver\<close> is the member of the base class \<open>Monitor\<close>.\<close>

record BoundarySolverMonitor =
  solver :: "SolverPtr option"
  boundarySolver :: "BoundarySolver option"
  name :: string
  boundaryDm :: "nat option"
  faceDm :: "nat option"

subsection \<open>Statements, exceptions and \<open>>> checkError\<close>\<close>

datatype exn = invalid_argument string | runtime_error PetscErrorCode | out_of_range

type_synonym Machine = "BoundarySolverMonitor \<times> World"
type_synonym 'a exec = "Machine \<Rightarrow> (exn + 'a) \<times> Machine"

definition return :: "'a \<Rightarrow> 'a exec" where
  "return x s = (Inr x, s)"

definition throw :: "exn \<Rightarrow> 'a exec" where
  "throw e s = (Inl e, s)"

text \<open>One statement after another; an exception ends the sequence.\<close>

definition andThen :: "'a exec \<Rightarrow> ('a \<Rightarrow> 'b exec) \<Rightarrow> 'b exec" where
  "andThen m f s = (case m s of (Inl e, s') \<Rightarrow> (Inl e, s') | (Inr x, s') \<Rightarrow> f x s')"

definition getThis :: "BoundarySolverMonitor exec" where
  "getThis s = (Inr (fst s), s)"

definition assign :: "(BoundarySolverMonitor \<Rightarrow> BoundarySolverMonitor) \<Rightarrow> unit exec" where
  "assign f s = (Inr (), (f (fst s), snd s))"

text \<open>
  Modelled from the spec: \<open>checkError\<close> is declared in utilities/petscError.hpp, which is not
  among the sources.  Any failure of a library call is fatal and surfaces at once to the
  caller: a call that returns a nonzero error code throws.
\<close>

definition checkError :: "'a petsc \<Rightarrow> 'a exec" where
  "checkError call s =
     (case call (snd s) of
        (Inl ierr, w) \<Rightarrow> (Inl (runtime_error ierr), (fst s, w))
      | (Inr x, w) \<Rightarrow> (Inr x, (fst s, w)))"

text \<open>A call whose error code is dropped (no \<open>>> checkError\<close>).\<close>

definition ignoreError :: "unit petsc \<Rightarrow> unit exec" where
  "ignoreError call s = (case call (snd s) of (r, w) \<Rightarrow> (Inr (), (fst s, w)))"

text \<open>\<open>for (PetscInt i = first; i < end; ++i)\<close>, with the variables the body updates.\<close>

function forLoop :: "PetscInt \<Rightarrow> PetscInt \<Rightarrow> (PetscInt \<Rightarrow> 'a \<Rightarrow> 'a exec) \<Rightarrow> 'a \<Rightarrow> 'a exec" where
  "forLoop i end body acc s =
     (if i < end
      then (case body i acc s of
              (Inl e, s') \<Rightarrow> (Inl e, s')
            | (Inr acc', s') \<Rightarrow> forLoop (i + 1) end body acc' s')
      else (Inr acc, s))"
  by pat_completeness auto
termination
  by (relation "measure (\<lambda>(i, n, body, acc, s). nat (n - i))") auto

declare forLoop.simps [simp del]

text \<open>\<open>for (const auto& x : xs)\<close>.\<close>

fun forEach :: "'b list \<Rightarrow> ('b \<Rightarrow> 'a \<Rightarrow> 'a exec) \<Rightarrow> 'a \<Rightarrow> 'a exec" where
  "forEach [] body acc s = (Inr acc, s)"
| "forEach (x # xs) body acc s =
     (case body x acc s of
        (Inl e, s') \<Rightarrow> (Inl e, s')
      | (Inr acc', s') \<Rightarrow> forEach xs body acc' s')"

text \<open>Reading \<open>array[i]\<close>; outside the array the read is undefined in C++, here it throws.\<close>

definition readIndex :: "PetscInt list \<Rightarrow> PetscInt \<Rightarrow> PetscInt exec" where
  "readIndex array i =
     (if 0 \<le> i \<and> i < int (length array) then return (array ! nat i) else throw out_of_range)"

text \<open>
  Modelled from the spec: the base class \<open>Monitor\<close> (monitors/monitor.hpp) is not among the
  sources.  Its \<open>Register\<close> keeps the solver, which \<open>GetSolver\<close> returns, and \<open>GetId\<close> is the
  monitor's identifier string, the member \<open>name\<close>.
\<close>

definition Monitor_Register :: "SolverPtr \<Rightarrow> unit exec" where
  "Monitor_Register solverIn = assign (\<lambda>this. this\<lparr>solver := Some solverIn\<rparr>)"

definition GetSolver :: "BoundarySolverMonitor \<Rightarrow> SolverPtr option" where
  "GetSolver this = solver this"

definition GetId :: "BoundarySolverMonitor \<Rightarrow> string" where
  "GetId this = name this"

text \<open>
  \<open>boundarySolver->ComputeRHSFunction(time, locXVec, localBoundaryVec, outputFunctions)\<close>: the
  collaborator fills the local boundary vector and returns its error code.
\<close>

definition ComputeRHSFunction ::
  "BoundarySolver option \<Rightarrow> PetscReal \<Rightarrow> nat option \<Rightarrow> nat option \<Rightarrow> unit petsc" where
  "ComputeRHSFunction bs time locXVec locFVec =
     petscCall ''ComputeRHSFunction'' [hnd locXVec, hnd locFVec]
       (withVec locXVec (\<lambda>kx X. withVec locFVec (\<lambda>kf F h.
          case bs of None \<Rightarrow> (Inl PETSC_ERR_ARG_NULL, h)
          | Some b \<Rightarrow>
              (case computeRHS b time (entries X) (entries F) (outputFunctions b) of
                 (ierr, F') \<Rightarrow>
                   (if ierr \<noteq> 0 then Inl ierr else Inr (), putVec kf (F\<lparr>entries := F'\<rparr>) h)))))"

subsection \<open>The destructor\<close>

definition destructor :: "unit exec" where
  "destructor =
     andThen getThis (\<lambda>this.
     andThen (if boundaryDm this \<noteq> None then checkError (DMDestroy (boundaryDm this)) else return ()) (\<lambda>_.
     andThen getThis (\<lambda>this.
     (if faceDm this \<noteq> None then checkError (DMDestroy (faceDm this)) else return ()))))"

subsection \<open>Register\<close>

definition Register :: "SolverPtr \<Rightarrow> unit exec" where
  "Register solverArg =
     andThen (Monitor_Register solverArg) (\<lambda>_.
     \<comment> \<open>this monitor will only work boundary solver\<close>
     andThen (assign (\<lambda>this. this\<lparr>boundarySolver := dynamic_pointer_cast solverArg\<rparr>)) (\<lambda>_.
     andThen getThis (\<lambda>this.
     if boundarySolver this = None
     then throw (invalid_argument
       ''The BoundarySolverMonitor monitor can only be used with ablate::boundarySolver::BoundarySolver'')
     else
     \<comment> \<open>update the name\<close>
     andThen (assign (\<lambda>this. this\<lparr>name := GetSolverId solverArg @ name this\<rparr>)) (\<lambda>_.
     \<comment> \<open>make a copy of the dm for a boundary dm.\<close>
     andThen (checkError (DMGetCoordinateDM (GetDM (Some solverArg)))) (\<lambda>coordDM.
     andThen (checkError (DMClone (GetDM (Some solverArg)))) (\<lambda>boundaryDm'.
     andThen (assign (\<lambda>this. this\<lparr>boundaryDm := boundaryDm'\<rparr>)) (\<lambda>_.
     andThen (checkError (DMSetCoordinateDM boundaryDm' coordDM)) (\<lambda>_.
     \<comment> \<open>Create a label in the dm copy to mark boundary faces\<close>
     andThen (checkError (DMCreateLabel boundaryDm' ''boundaryFaceLabel'')) (\<lambda>_.
     andThen (checkError (DMGetLabel boundaryDm' ''boundaryFaceLabel'')) (\<lambda>boundaryFaceLabel.
     \<comment> \<open>Also create a section on each of the faces.\<close>
     andThen (checkError PetscSectionCreate) (\<lambda>boundaryFaceSection.
     \<comment> \<open>Set the max/min bounds\<close>
     andThen (checkError (DMPlexGetHeightStratum (GetDM (Some solverArg)) 1)) (\<lambda>(fStart, fEnd).
     andThen (checkError (PetscSectionSetChart boundaryFaceSection fStart fEnd)) (\<lambda>boundaryFaceSection.
     \<comment> \<open>default section dof to zero\<close>
     andThen (forLoop fStart fEnd
                (\<lambda>f boundaryFaceSection. checkError (PetscSectionSetDof boundaryFaceSection f 0))
                boundaryFaceSection) (\<lambda>boundaryFaceSection.
     \<comment> \<open>set the label at each of the faces and set the dof at each point\<close>
     andThen (return (int (length (outputComponents (the (boundarySolver this)))))) (\<lambda>numberOfComponents.
     andThen (forEach (boundaryGeometry (the (boundarySolver this)))
                (\<lambda>gradientStencil boundaryFaceSection.
                   andThen (checkError (DMLabelSetValue boundaryFaceLabel (faceId (geometry gradientStencil)) 1)) (\<lambda>_.
                   checkError (PetscSectionSetDof boundaryFaceSection (faceId (geometry gradientStencil))
                                 numberOfComponents)))
                boundaryFaceSection) (\<lambda>boundaryFaceSection.
     \<comment> \<open>finish the section\<close>
     andThen (checkError (PetscSectionSetUp boundaryFaceSection)) (\<lambda>boundaryFaceSection.
     andThen (checkError (DMSetLocalSection boundaryDm' boundaryFaceSection)) (\<lambda>_.
     andThen (checkError (PetscSectionDestroy boundaryFaceSection)) (\<lambda>_.
     \<comment> \<open>Complete the label\<close>
     andThen (checkError (DMPlexLabelComplete boundaryDm' boundaryFaceLabel)) (\<lambda>_.
     \<comment> \<open>Now create a sub dm with only the faces\<close>
     andThen (checkError (DMPlexFilter boundaryDm' boundaryFaceLabel 1)) (\<lambda>faceDm'.
     andThen (assign (\<lambda>this. this\<lparr>faceDm := faceDm'\<rparr>)) (\<lambda>_.
     \<comment> \<open>Add each of the output components on each face in the faceDm\<close>
     andThen (forEach (outputComponents (the (boundarySolver this)))
                (\<lambda>field _.
                   andThen (checkError PetscFVCreate) (\<lambda>fvm.
                   andThen (checkError (PetscObjectSetName_FV fvm field)) (\<lambda>fvm.
                   andThen (checkError (PetscFVSetFromOptions fvm)) (\<lambda>fvm.
                   andThen (checkError (PetscFVSetNumComponents fvm 1)) (\<lambda>fvm.
                   andThen (checkError (DMGetCoordinateDim faceDm')) (\<lambda>dim'.
                   andThen (checkError (PetscFVSetSpatialDimension fvm dim')) (\<lambda>fvm.
                   andThen (checkError (DMAddField faceDm' fvm)) (\<lambda>_.
                   ignoreError (PetscFVDestroy fvm)))))))))
                ()) (\<lambda>_.
     checkError (DMCreateDS faceDm'))))))))))))))))))))))))"

subsection \<open>Save\<close>

text \<open>
  The body of the loop \<open>for (PetscInt facePt = cStart; facePt < cEnd; ++facePt)\<close> of \<open>Save\<close>: the
  boundary point of the face, the address of its data in the boundary array and in the face
  array, and the copy when neither address is null.
\<close>

definition copyFace ::
  "BoundarySolverMonitor \<Rightarrow> ScalarPtr \<Rightarrow> ScalarPtr \<Rightarrow> PetscInt list \<Rightarrow> PetscInt \<Rightarrow> PetscInt \<Rightarrow> unit exec" where
  "copyFace this localBoundaryArray localFaceArray faceToBoundary dataSize facePt =
     andThen (readIndex faceToBoundary facePt) (\<lambda>boundaryPt.
     andThen (checkError (DMPlexPointLocalRead (boundaryDm this) boundaryPt localBoundaryArray))
       (\<lambda>localBoundaryData.
     andThen (checkError (DMPlexPointLocalRef (faceDm this) facePt localFaceArray)) (\<lambda>globalFaceData.
     if globalFaceData \<noteq> None \<and> localBoundaryData \<noteq> None
     then checkError (PetscArraycpy (the globalFaceData) (the localBoundaryData) dataSize)
     else return ())))"

definition Save :: "nat \<Rightarrow> PetscInt \<Rightarrow> PetscReal \<Rightarrow> unit exec" where
  "Save viewer sequenceNumber time =
     andThen getThis (\<lambda>this.
     \<comment> \<open>If this is the first output, store a copy of the faceDm\<close>
     andThen (if sequenceNumber = 0 then checkError (DMView (faceDm this) viewer) else return ()) (\<lambda>_.
     \<comment> \<open>Set the output sequence number to the face dm\<close>
     andThen (checkError (DMSetOutputSequenceNumber (faceDm this) sequenceNumber time)) (\<lambda>_.
     \<comment> \<open>Create a local version of the solution (X) vector\<close>
     andThen (checkError (DMGetLocalVector (GetDM (GetSolver this)))) (\<lambda>locXVec.
     andThen (checkError (DMGlobalToLocalBegin (GetDM (GetSolver this)) (GetSolutionVector (GetSolver this))
                            INSERT_VALUES locXVec)) (\<lambda>_.
     \<comment> \<open>create a local vector on the boundary solver\<close>
     andThen (checkError (DMGetLocalVector (boundaryDm this))) (\<lambda>localBoundaryVec.
     andThen (checkError (VecZeroEntries localBoundaryVec)) (\<lambda>_.
     \<comment> \<open>finish with the locXVec\<close>
     andThen (checkError (DMGlobalToLocalEnd (GetDM (GetSolver this)) (GetSolutionVector (GetSolver this))
                            INSERT_VALUES locXVec)) (\<lambda>_.
     \<comment> \<open>compute the rhs\<close>
     andThen (checkError (ComputeRHSFunction (boundarySolver this) time locXVec localBoundaryVec)) (\<lambda>_.
     \<comment> \<open>Create a local vector for just the monitor\<close>
     andThen (checkError (DMGetLocalVector (faceDm this))) (\<lambda>localFaceVec.
     andThen (checkError (VecZeroEntries localFaceVec)) (\<lambda>_.
     \<comment> \<open>Get the raw data for the global vectors\<close>
     andThen (checkError (VecGetArrayRead localBoundaryVec)) (\<lambda>localBoundaryArray.
     andThen (checkError (VecGetArray localFaceVec)) (\<lambda>localFaceArray.
     \<comment> \<open>Determine the size of data\<close>
     andThen (checkError (VecGetBlockSize localFaceVec)) (\<lambda>dataSize.
     \<comment> \<open>March over each cell in the face dm\<close>
     andThen (checkError (DMPlexGetHeightStratum (faceDm this) 0)) (\<lambda>(cStart, cEnd).
     \<comment> \<open>get the mapping information\<close>
     andThen (checkError (DMPlexGetSubpointIS (faceDm this))) (\<lambda>faceIs.
     andThen (checkError (ISGetIndices faceIs)) (\<lambda>faceToBoundary.
     \<comment> \<open>Copy over the values that are in the globalFaceVec.  We may skip some local ghost values\<close>
     andThen (if localBoundaryArray \<noteq> None \<and> localFaceArray \<noteq> None
              then forLoop cStart cEnd
                     (\<lambda>facePt _. copyFace this (the localBoundaryArray) (the localFaceArray)
                                    faceToBoundary dataSize facePt)
                     ()
              else return ()) (\<lambda>_.
     \<comment> \<open>restore\<close>
     andThen (checkError (ISRestoreIndices faceIs)) (\<lambda>_.
     andThen (checkError (VecRestoreArrayRead localBoundaryVec localBoundaryArray)) (\<lambda>_.
     andThen (checkError (VecRestoreArray localFaceVec localFaceArray)) (\<lambda>_.
     \<comment> \<open>Map to a global array with add values\<close>
     andThen (checkError (DMGetGlobalVector (faceDm this))) (\<lambda>globalFaceVec.
     andThen (checkError (PetscObjectSetName_Vec globalFaceVec (GetId this))) (\<lambda>_.
     andThen (ignoreError (VecZeroEntries globalFaceVec)) (\<lambda>_.
     andThen (checkError (DMLocalToGlobal (faceDm this) localFaceVec ADD_VALUES globalFaceVec)) (\<lambda>_.
     \<comment> \<open>write to the output file\<close>
     andThen (checkError (VecView globalFaceVec viewer)) (\<lambda>_.
     andThen (checkError (DMRestoreGlobalVector (faceDm this) globalFaceVec)) (\<lambda>_.
     \<comment> \<open>cleanup\<close>
     andThen (checkError (DMRestoreLocalVector (faceDm this) localFaceVec)) (\<lambda>_.
     andThen (checkError (DMRestoreLocalVector (GetDM (GetSolver this)) locXVec)) (\<lambda>_.
     checkError (DMRestoreLocalVector (boundaryDm this) localBoundaryVec))))))))))))))))))))))))))))))"

section \<open>A concrete mesh, solver and world\<close>

text \<open>
  One triangular cell (point 0) with vertices 1, 2, 3 and edges 4, 5, 6; the edges are the
  faces of the mesh.  The solver marks faces 4 and 6 and has one output component; its
  routine writes 10 and 20 for the two faces.  Another process sends the value 0 into global
  dof 0 of the reduction.
\<close>

definition triangleDM :: DM where
  "triangleDM =
     \<lparr>strata = [(0, 1), (4, 7), (1, 4)],
      cone = (\<lambda>p. if p = 0 then [4, 5, 6] else if p = 4 then [1, 2] else if p = 5 then [2, 3]
                  else if p = 6 then [3, 1] else []),
      owned = (\<lambda>p. True),
      labels = (\<lambda>name. None),
      localSection = None,
      dmFields = [],
      hasDS = False,
      subpointIS = None,
      coordinateDM = None,
      coordinateDim = 2,
      outputSequence = (-1, dzero)\<rparr>"

definition exampleHeap :: Heap where
  "exampleHeap =
     \<lparr>dms = (\<lambda>k. if k = 0 then Some triangleDM else None),
      nextDM = 1,
      vecs = (\<lambda>k. if k = 0 then Some \<lparr>entries = [], blockSize = 1, vecDM = 0, vecName = ''solution''\<rparr> else None),
      nextVec = 1,
      checkedOut = [],
      pendingExchange = None,
      viewerOutput = [],
      stale = (\<lambda>i. double_of_int 7),
      ghostView = (\<lambda>g i. double_of_int 1),
      remoteLeaves = [(0, dzero)]\<rparr>"

definition exampleWorld :: World where
  "exampleWorld = \<lparr>trace = [], injected = (\<lambda>c. 0), heap = exampleHeap\<rparr>"

definition exampleBoundarySolver :: BoundarySolver where
  "exampleBoundarySolver =
     \<lparr>solverId = ''boundary'', subDomainDM = Some 0, solutionVector = Some 0,
      outputComponents = [''heatFlux''],
      boundaryGeometry = [\<lparr>geometry = \<lparr>faceId = 4\<rparr>\<rparr>, \<lparr>geometry = \<lparr>faceId = 6\<rparr>\<rparr>],
      outputFunctions = [],
      computeRHS = (\<lambda>time X F fns. (0, [double_of_int 10, double_of_int 20]))\<rparr>"

text \<open>The time of the example snapshots, half a second.\<close>

definition exampleTime :: PetscReal where
  "exampleTime = ddiv (double_of_int 1) (double_of_int 2)"

definition newMonitor :: BoundarySolverMonitor where
  "newMonitor =
     \<lparr>solver = None, boundarySolver = None, name = ''_boundarySolverMonitor'',
      boundaryDm = None, faceDm = None\<rparr>"

text \<open>The monitor and the world after registering with the example boundary solver.\<close>

definition registered :: Machine where
  "registered = snd (Register (BoundarySolverPtr exampleBoundarySolver) (newMonitor, exampleWorld))"

text \<open>
  A registered monitor given directly.  The boundary mesh (handle 1) carries the label and the
  section with one dof on faces 4 and 6 and none on face 5; the face sub-mesh (handle 2) has
  the three faces 4, 5, 6 as its cells 0, 1, 2 and the vertices after them, with one field.
  Face 5 is a sub-mesh cell without data on the boundary mesh (a face that a neighbouring
  process computes).
\<close>

definition readyBoundaryDM :: DM where
  "readyBoundaryDM = triangleDM
     \<lparr>labels := (\<lambda>name. if name = ''boundaryFaceLabel''
                         then Some [(4, 1), (6, 1), (5, 1), (1, 1), (2, 1), (3, 1)] else None),
      localSection := Some \<lparr>pStart = 4, pEnd = 7, atlasDof = [1, 0, 1], atlasOff = [0, 1, 1]\<rparr>\<rparr>"

definition readyFaceDM :: DM where
  "readyFaceDM =
     \<lparr>strata = [(0, 3), (3, 6)],
      cone = (\<lambda>p. if p = 0 then [3, 4] else if p = 1 then [4, 5] else if p = 2 then [5, 3] else []),
      owned = (\<lambda>p. True),
      labels = (\<lambda>name. None),
      localSection = None,
      dmFields = [\<lparr>fvName = ''heatFlux'', numComponents = 1, spatialDimension = 2\<rparr>],
      hasDS = True,
      subpointIS = Some [4, 5, 6, 1, 2, 3],
      coordinateDM = None,
      coordinateDim = 2,
      outputSequence = (-1, dzero)\<rparr>"

definition readyHeap :: Heap where
  "readyHeap =
     \<lparr>dms = (\<lambda>k. if k = 0 then Some triangleDM else if k = 1 then Some readyBoundaryDM
                  else if k = 2 then Some readyFaceDM else None),
      nextDM = 3,
      vecs = (\<lambda>k. if k = 0 then Some \<lparr>entries = [], blockSize = 1, vecDM = 0, vecName = ''solution''\<rparr> else None),
      nextVec = 1,
      checkedOut = [],
      pendingExchange = None,
      viewerOutput = [],
      stale = (\<lambda>i. double_of_int 7),
      ghostView = (\<lambda>g i. double_of_int 1),
      remoteLeaves = [(0, dzero)]\<rparr>"

definition readyMonitor :: BoundarySolverMonitor where
  "readyMonitor =
     \<lparr>solver = Some (BoundarySolverPtr exampleBoundarySolver),
      boundarySolver = Some exampleBoundarySolver,
      name = ''boundary_boundarySolverMonitor'',
      boundaryDm = Some 1, faceDm = Some 2\<rparr>"

definition ready :: Machine where
  "ready = (readyMonitor, \<lparr>trace = [], injected = (\<lambda>c. 0), heap = readyHeap\<rparr>)"

text \<open>The same monitor on a boundary solver whose routine fails with error code 76.\<close>

definition failingBoundarySolver :: BoundarySolver where
  "failingBoundarySolver = exampleBoundarySolver\<lparr>computeRHS := (\<lambda>time X F fns. (76, F))\<rparr>"

definition readyFailing :: Machine where
  "readyFailing =
     (readyMonitor\<lparr>solver := Some (BoundarySolverPtr failingBoundarySolver),
                   boundarySolver := Some failingBoundarySolver\<rparr>,
      \<lparr>trace = [], injected = (\<lambda>c. 0), heap = readyHeap\<rparr>)"


section \<open>Observing a run\<close>

text \<open>
  The library calls a statement makes, read off the log of the world, and the frame conditions
  used to reason about them: a statement \<open>steps\<close> along a relation when every run of it takes
  the world to a related one; \<open>calls N\<close> relates two worlds when the log grew by calls of
  routines in \<open>N\<close> only.
\<close>

definition callName :: "PetscCall \<Rightarrow> string" where
  "callName c = (case c of PetscCall routine args \<Rightarrow> routine)"

definition callsDuring :: "'a exec \<Rightarrow> Machine \<Rightarrow> PetscCall list" where
  "callsDuring m s = drop (length (trace (snd s))) (trace (snd (snd (m s))))"

definition steps :: "(World \<Rightarrow> World \<Rightarrow> bool) \<Rightarrow> 'a exec \<Rightarrow> bool" where
  "steps R m = (\<forall>s. R (snd s) (snd (snd (m s))))"

definition calls :: "string set \<Rightarrow> World \<Rightarrow> World \<Rightarrow> bool" where
  "calls N w w' = (\<exists>cs. trace w' = trace w @ cs \<and> callName ` set cs \<subseteq> N)"

definition afterTopology :: "string set" where
  "afterTopology = {''DMSetOutputSequenceNumber'', ''DMGetLocalVector'', ''DMGlobalToLocalBegin'',
     ''VecZeroEntries'', ''DMGlobalToLocalEnd'', ''ComputeRHSFunction'', ''VecGetArrayRead'',
     ''VecGetArray'', ''VecGetBlockSize'', ''DMPlexGetHeightStratum'', ''DMPlexGetSubpointIS'',
     ''ISGetIndices'', ''DMPlexPointLocalRead'', ''DMPlexPointLocalRef'', ''PetscArraycpy'',
     ''ISRestoreIndices'', ''VecRestoreArrayRead'', ''VecRestoreArray'', ''DMGetGlobalVector'',
     ''PetscObjectSetName'', ''DMLocalToGlobal'', ''VecView'', ''DMRestoreGlobalVector'',
     ''DMRestoreLocalVector''}"

text \<open>
  A statement \<open>followsAt\<close> a list of calls from a state when its run from that state makes
  exactly these calls, with these arguments and in this order, and after them only calls of
  routines of a given set; it makes fewer of them only when a call fails and ends the run.
\<close>

definition followsAt :: "PetscCall list \<Rightarrow> string set \<Rightarrow> 'a exec \<Rightarrow> Machine \<Rightarrow> bool" where
  "followsAt P N m s =
     (\<exists>k ns. trace (snd (snd (m s))) = trace (snd s) @ take k P @ ns \<and> callName ` set ns \<subseteq> N
            \<and> (length P \<le> k \<or> (ns = [] \<and> (\<exists>e. fst (m s) = Inl e))))"

text \<open>
  The calls of \<open>Save\<close> up to the end of the ghost exchange, from the state \<open>Save\<close> starts in.
  The vectors are named by their handles: \<open>DMGetLocalVector\<close> hands out the next free handle of
  the heap, so the local solution view \<open>locXVec\<close> is that handle and the local boundary result
  \<open>localBoundaryVec\<close> the one after it.
\<close>

definition exchangeCalls :: "Machine \<Rightarrow> nat \<Rightarrow> PetscInt \<Rightarrow> PetscCall list" where
  "exchangeCalls s viewer sequenceNumber =
     (if sequenceNumber = 0 then [PetscCall ''DMView'' [hnd (faceDm (fst s)), int viewer]] else []) @
     [PetscCall ''DMSetOutputSequenceNumber'' [hnd (faceDm (fst s)), sequenceNumber],
      PetscCall ''DMGetLocalVector'' [hnd (GetDM (GetSolver (fst s)))],
      PetscCall ''DMGlobalToLocalBegin''
        [hnd (GetDM (GetSolver (fst s))), hnd (GetSolutionVector (GetSolver (fst s))),
         int (nextVec (heap (snd s)))],
      PetscCall ''DMGetLocalVector'' [hnd (boundaryDm (fst s))],
      PetscCall ''VecZeroEntries'' [int (nextVec (heap (snd s))) + 1],
      PetscCall ''DMGlobalToLocalEnd''
        [hnd (GetDM (GetSolver (fst s))), hnd (GetSolutionVector (GetSolver (fst s))),
         int (nextVec (heap (snd s)))]]"

definition afterExchange :: "string set" where
  "afterExchange = {''DMGetLocalVector'',
     ''VecZeroEntries'', ''ComputeRHSFunction'', ''VecGetArrayRead'',
     ''VecGetArray'', ''VecGetBlockSize'', ''DMPlexGetHeightStratum'', ''DMPlexGetSubpointIS'',
     ''ISGetIndices'', ''DMPlexPointLocalRead'', ''DMPlexPointLocalRef'', ''PetscArraycpy'',
     ''ISRestoreIndices'', ''VecRestoreArrayRead'', ''VecRestoreArray'', ''DMGetGlobalVector'',
     ''PetscObjectSetName'', ''DMLocalToGlobal'', ''VecView'', ''DMRestoreGlobalVector'',
     ''DMRestoreLocalVector''}"








section \<open>Properties of the buoyancy source term\<close>

lemma buoyancyLoop_step:
  "n < ndim \<Longrightarrow> buoyancyLoop C ctx ndim uOff u density n f =
     buoyancyLoop C ctx ndim uOff u density (n + 1) (buoyancyBody C ctx uOff u density n f)"
  by (subst buoyancyLoop.simps) (simp add: Let_def buoyancyBody_def)

lemma buoyancyLoop_done:
  "\<not> n < ndim \<Longrightarrow> buoyancyLoop C ctx ndim uOff u density n f = f"
  by (subst buoyancyLoop.simps) simp

lemma PetscMax_clamped:
  "PetscMax (dmul (dsub density (densityAvg ctx)) (buoyancyVector ctx ! nat n)) dzero
     = clampedSource ctx density n"
  by (simp add: PetscMax_def clampedSource_def)

lemma buoyancyBody_other:
  "j \<noteq> RHOE C \<Longrightarrow> j \<noteq> RHOU C + n \<Longrightarrow> buoyancyBody C ctx uOff u density n f j = f j"
  by (simp add: buoyancyBody_def Let_def)

lemma buoyancyBody_momentum:
  "RHOU C + n \<noteq> RHOE C \<Longrightarrow>
     buoyancyBody C ctx uOff u density n f (RHOU C + n) = clampedSource ctx density n"
  by (simp add: buoyancyBody_def Let_def PetscMax_clamped)

lemma buoyancyBody_energy:
  "RHOU C + n \<noteq> RHOE C \<Longrightarrow>
     buoyancyBody C ctx uOff u density n f (RHOE C) =
       dadd (f (RHOE C)) (dmul (ddiv (u (uOff EULER_FIELD + RHOU C + n)) density) (clampedSource ctx density n))"
  by (simp add: buoyancyBody_def Let_def PetscMax_clamped)

lemma buoyancyLoop_other:
  "j \<noteq> RHOE C \<Longrightarrow> (\<forall>k. n \<le> k \<and> k < ndim \<longrightarrow> j \<noteq> RHOU C + k)
    \<Longrightarrow> buoyancyLoop C ctx ndim uOff u density n f j = f j"
proof (induction "nat (ndim - n)" arbitrary: n f)
  case 0
  then show ?case by (simp add: buoyancyLoop_done)
next
  case (Suc m)
  then have lt: "n < ndim" and m: "m = nat (ndim - (n + 1))" by linarith+
  have "buoyancyLoop C ctx ndim uOff u density (n + 1) (buoyancyBody C ctx uOff u density n f) j
        = buoyancyBody C ctx uOff u density n f j"
    using Suc.prems by (intro Suc.hyps(1) m) auto
  also have "\<dots> = f j"
    using Suc.prems lt by (simp add: buoyancyBody_other)
  finally show ?case by (simp add: buoyancyLoop_step lt)
qed

lemma buoyancyLoop_momentum:
  "n \<le> k \<Longrightarrow> k < ndim \<Longrightarrow> (\<forall>k. n \<le> k \<and> k < ndim \<longrightarrow> RHOU C + k \<noteq> RHOE C)
    \<Longrightarrow> buoyancyLoop C ctx ndim uOff u density n f (RHOU C + k) = clampedSource ctx density k"
proof (induction "nat (ndim - n)" arbitrary: n f)
  case 0
  then show ?case by simp
next
  case (Suc m)
  then have lt: "n < ndim" and m: "m = nat (ndim - (n + 1))" by linarith+
  show ?case
  proof (cases "k = n")
    case True
    have "buoyancyLoop C ctx ndim uOff u density (n + 1) (buoyancyBody C ctx uOff u density n f) (RHOU C + k)
          = buoyancyBody C ctx uOff u density n f (RHOU C + k)"
      using Suc.prems True by (intro buoyancyLoop_other) auto
    also have "\<dots> = clampedSource ctx density k"
      using Suc.prems True by (simp add: buoyancyBody_momentum)
    finally show ?thesis by (simp add: buoyancyLoop_step lt)
  next
    case False
    with Suc.prems have "n + 1 \<le> k" by simp
    then have "buoyancyLoop C ctx ndim uOff u density (n + 1) (buoyancyBody C ctx uOff u density n f) (RHOU C + k)
          = clampedSource ctx density k"
      using Suc.prems by (intro Suc.hyps(1) m) auto
    then show ?thesis by (simp add: buoyancyLoop_step lt)
  qed
qed

lemma upto_first: "n < ndim \<Longrightarrow> [n..ndim - 1] = n # [n + 1..ndim - 1]"
  by (subst upto.simps) simp

lemma buoyancyLoop_energy:
  "(\<forall>k. n \<le> k \<and> k < ndim \<longrightarrow> RHOU C + k \<noteq> RHOE C)
    \<Longrightarrow> buoyancyLoop C ctx ndim uOff u density n f (RHOE C) =
        energySource C ctx uOff u density [n..ndim - 1] (f (RHOE C))"
proof (induction "nat (ndim - n)" arbitrary: n f)
  case 0
  then show ?case by (simp add: buoyancyLoop_done energySource_def)
next
  case (Suc m)
  then have lt: "n < ndim" and m: "m = nat (ndim - (n + 1))" by linarith+
  have ne: "RHOU C + n \<noteq> RHOE C" using Suc.prems lt by auto
  have "buoyancyLoop C ctx ndim uOff u density (n + 1) (buoyancyBody C ctx uOff u density n f) (RHOE C)
        = energySource C ctx uOff u density [n + 1..ndim - 1] (buoyancyBody C ctx uOff u density n f (RHOE C))"
    using Suc.prems by (intro Suc.hyps(1) m) auto
  then show ?case
    by (simp add: buoyancyLoop_step lt upto_first [OF lt] energySource_def buoyancyBody_energy [OF ne])
qed

lemma dlt_dzero_dzero: "\<not> dlt dzero dzero"
  by (simp add: dzero_def)

lemma dle_dzero_dzero: "dle dzero dzero"
  by (simp add: dzero_def)

lemma dle_dzero_total: "\<not> dlt a dzero \<Longrightarrow> a \<noteq> NaN \<Longrightarrow> dle dzero a"
  by (cases a) (auto simp: dzero_def scaled_def min.commute)

lemma clampedSource_not_negative: "\<not> dlt (clampedSource ctx density n) dzero"
  by (simp add: clampedSource_def dlt_dzero_dzero)

lemma clampedSource_NaN:
  "(clampedSource ctx density n = NaN)
     = (dmul (dsub density (densityAvg ctx)) (buoyancyVector ctx ! nat n) = NaN)"
  by (auto simp: clampedSource_def dzero_def)

lemma clampedSource_nonneg:
  "clampedSource ctx density n = NaN \<or> dle dzero (clampedSource ctx density n)"
  using dle_dzero_total [of "clampedSource ctx density n"] clampedSource_not_negative [of ctx density n]
  by blast

text \<open>
  Claim C10, as amended.  \<open>ComputeBuoyancySource\<close> reports success and sets the density source
  to \<open>0.0\<close>.  Each momentum source component \<open>n < dim\<close> is the double
  \<open>(density - densityAvg) * buoyancyVector[n]\<close>, the difference and the product rounded, or
  \<open>0.0\<close> when that product is less than \<open>0.0\<close>; so it is never less than \<open>0.0\<close>, and it is either
  greater than or equal to \<open>0.0\<close> or NaN, NaN exactly when the product is NaN.  The energy source
  is the sum, taken in doubles from \<open>0.0\<close> in the order \<open>n = 0, ..., dim - 1\<close>, of
  \<open>momentum[n] / density\<close> times that component.  This holds for every cell state, the density 0,
  the infinities and NaN among them; the layout of the Euler components is any one in which the
  density and energy slots differ from each other and from the \<open>dim\<close> momentum slots, and the
  buoyancy vector has at least \<open>dim\<close> entries.
\<close>

theorem ComputeBuoyancySource_spec:
  assumes layout: "RHO C \<noteq> RHOE C"
      "\<forall>n. 0 \<le> n \<and> n < ndim \<longrightarrow> RHOU C + n \<noteq> RHO C \<and> RHOU C + n \<noteq> RHOE C"
    and vec: "ndim \<le> int (length (buoyancyVector ctx))"
  shows "fst (ComputeBuoyancySource C ndim time cg uOff u aOff a f ctx) = 0
    \<and> snd (ComputeBuoyancySource C ndim time cg uOff u aOff a f ctx) (RHO C) = dzero
    \<and> (\<forall>n. 0 \<le> n \<and> n < ndim \<longrightarrow>
          snd (ComputeBuoyancySource C ndim time cg uOff u aOff a f ctx) (RHOU C + n) =
            (if dlt (dmul (dsub (u (uOff EULER_FIELD + RHO C)) (densityAvg ctx)) (buoyancyVector ctx ! nat n)) dzero
             then dzero
             else dmul (dsub (u (uOff EULER_FIELD + RHO C)) (densityAvg ctx)) (buoyancyVector ctx ! nat n))
          \<and> \<not> dlt (snd (ComputeBuoyancySource C ndim time cg uOff u aOff a f ctx) (RHOU C + n)) dzero
          \<and> (snd (ComputeBuoyancySource C ndim time cg uOff u aOff a f ctx) (RHOU C + n) = NaN
              \<or> dle dzero (snd (ComputeBuoyancySource C ndim time cg uOff u aOff a f ctx) (RHOU C + n)))
          \<and> ((snd (ComputeBuoyancySource C ndim time cg uOff u aOff a f ctx) (RHOU C + n) = NaN)
              = (dmul (dsub (u (uOff EULER_FIELD + RHO C)) (densityAvg ctx)) (buoyancyVector ctx ! nat n) = NaN)))
    \<and> snd (ComputeBuoyancySource C ndim time cg uOff u aOff a f ctx) (RHOE C) =
          foldl (\<lambda>e n. dadd e (dmul (ddiv (u (uOff EULER_FIELD + RHOU C + n)) (u (uOff EULER_FIELD + RHO C)))
                                  (snd (ComputeBuoyancySource C ndim time cg uOff u aOff a f ctx) (RHOU C + n))))
            dzero [0..ndim - 1]"
proof -
  let ?rho = "u (uOff EULER_FIELD + RHO C)"
  let ?f = "snd (ComputeBuoyancySource C ndim time cg uOff u aOff a f ctx)"
  have mom: "\<forall>k. 0 \<le> k \<and> k < ndim \<longrightarrow> RHOU C + k \<noteq> RHOE C"
    and rho: "\<forall>k. 0 \<le> k \<and> k < ndim \<longrightarrow> RHO C \<noteq> RHOU C + k"
    using layout by auto
  have 1: "?f (RHO C) = dzero"
    using layout(1) by (simp add: ComputeBuoyancySource_def Let_def buoyancyLoop_other [OF layout(1) rho])
  have m: "?f (RHOU C + n) = clampedSource ctx ?rho n" if "0 \<le> n" "n < ndim" for n
    using mom that by (simp add: ComputeBuoyancySource_def Let_def buoyancyLoop_momentum)
  have 2: "\<forall>n. 0 \<le> n \<and> n < ndim \<longrightarrow>
          ?f (RHOU C + n) =
            (if dlt (dmul (dsub ?rho (densityAvg ctx)) (buoyancyVector ctx ! nat n)) dzero
             then dzero
             else dmul (dsub ?rho (densityAvg ctx)) (buoyancyVector ctx ! nat n))
          \<and> \<not> dlt (?f (RHOU C + n)) dzero
          \<and> (?f (RHOU C + n) = NaN \<or> dle dzero (?f (RHOU C + n)))
          \<and> ((?f (RHOU C + n) = NaN)
              = (dmul (dsub ?rho (densityAvg ctx)) (buoyancyVector ctx ! nat n) = NaN))"
  proof (intro allI impI)
    fix n assume n: "0 \<le> n \<and> n < ndim"
    then have "?f (RHOU C + n) = clampedSource ctx ?rho n" using m by simp
    moreover have "clampedSource ctx ?rho n =
            (if dlt (dmul (dsub ?rho (densityAvg ctx)) (buoyancyVector ctx ! nat n)) dzero
             then dzero
             else dmul (dsub ?rho (densityAvg ctx)) (buoyancyVector ctx ! nat n))"
      by (simp add: clampedSource_def)
    ultimately show "?f (RHOU C + n) =
            (if dlt (dmul (dsub ?rho (densityAvg ctx)) (buoyancyVector ctx ! nat n)) dzero
             then dzero
             else dmul (dsub ?rho (densityAvg ctx)) (buoyancyVector ctx ! nat n))
          \<and> \<not> dlt (?f (RHOU C + n)) dzero
          \<and> (?f (RHOU C + n) = NaN \<or> dle dzero (?f (RHOU C + n)))
          \<and> ((?f (RHOU C + n) = NaN)
              = (dmul (dsub ?rho (densityAvg ctx)) (buoyancyVector ctx ! nat n) = NaN))"
      using clampedSource_not_negative [of ctx ?rho n] clampedSource_nonneg [of ctx ?rho n]
        clampedSource_NaN [of ctx ?rho n]
      by simp
  qed
  have "?f (RHOE C) = energySource C ctx uOff u ?rho [0..ndim - 1] dzero"
    using layout(1) by (simp add: ComputeBuoyancySource_def Let_def buoyancyLoop_energy [OF mom])
  also have "\<dots> = foldl (\<lambda>e n. dadd e (dmul (ddiv (u (uOff EULER_FIELD + RHOU C + n)) ?rho) (?f (RHOU C + n))))
            dzero [0..ndim - 1]"
    unfolding energySource_def
    by (rule foldl_cong) (simp_all add: m)
  finally have 3: "?f (RHOE C) =
      foldl (\<lambda>e n. dadd e (dmul (ddiv (u (uOff EULER_FIELD + RHOU C + n)) ?rho) (?f (RHOU C + n))))
            dzero [0..ndim - 1]" .
  have 0: "fst (ComputeBuoyancySource C ndim time cg uOff u aOff a f ctx) = 0"
    by (simp add: ComputeBuoyancySource_def Let_def)
  from 0 1 2 3 show ?thesis by blast
qed

lemmas double_eval =
  roundDouble_def floorLog2_def roundHalfEven_def double_of_int_def dzero_def scaled_def dsub_def
  Let_def bitLength.simps

lemma example_doubles:
  "double_of_int 0 = Finite False 0 (- 1074)"
  "double_of_int 1 = Finite False 4503599627370496 (- 52)"
  "double_of_int (- 1) = Finite True 4503599627370496 (- 52)"
  "double_of_int 2 = Finite False 4503599627370496 (- 51)"
  "double_of_int 3 = Finite False 6755399441055744 (- 51)"
  "double_of_int 4 = Finite False 4503599627370496 (- 50)"
  "double_of_int 10000000000000000 = Finite False 5000000000000000 1"
  by (simp_all add: double_eval)

theorem ComputeBuoyancySource_spec_witness:
  "snd (ComputeBuoyancySource eulerLayout 2 dzero () (\<lambda>_. 0) eulerExample (\<lambda>_. 0) (\<lambda>_. dzero) (\<lambda>_. NaN) buoyancyExample) 0
     = Finite False 0 (- 1074)
   \<and> snd (ComputeBuoyancySource eulerLayout 2 dzero () (\<lambda>_. 0) eulerExample (\<lambda>_. 0) (\<lambda>_. dzero) (\<lambda>_. NaN) buoyancyExample) 2
     = Finite False 4503599627370496 (- 51)
   \<and> snd (ComputeBuoyancySource eulerLayout 2 dzero () (\<lambda>_. 0) eulerExample (\<lambda>_. 0) (\<lambda>_. dzero) (\<lambda>_. NaN) buoyancyExample) 3
     = Finite False 0 (- 1074)
   \<and> snd (ComputeBuoyancySource eulerLayout 2 dzero () (\<lambda>_. 0) eulerExample (\<lambda>_. 0) (\<lambda>_. dzero) (\<lambda>_. NaN) buoyancyExample) 1
     = Finite False 6004799503160661 (- 52)"
proof -
  let ?f = "snd (ComputeBuoyancySource eulerLayout 2 dzero () (\<lambda>_. 0) eulerExample (\<lambda>_. 0) (\<lambda>_. dzero) (\<lambda>_. NaN) buoyancyExample)"
  have h1: "RHO eulerLayout \<noteq> RHOE eulerLayout"
    by (simp add: eulerLayout_def)
  have h2: "\<forall>n. 0 \<le> n \<and> n < 2 \<longrightarrow> RHOU eulerLayout + n \<noteq> RHO eulerLayout \<and> RHOU eulerLayout + n \<noteq> RHOE eulerLayout"
    by (simp add: eulerLayout_def)
  have h3: "2 \<le> int (length (buoyancyVector buoyancyExample))"
    by (simp add: buoyancyExample_def)
  note spec = ComputeBuoyancySource_spec [where C = eulerLayout and ndim = 2 and ctx = buoyancyExample
      and u = eulerExample and uOff = "\<lambda>_. 0" and time = dzero and cg = "()" and aOff = "\<lambda>_. 0"
      and a = "\<lambda>_. dzero" and f = "\<lambda>_. NaN", OF h1 h2 h3]
  note mom = spec [THEN conjunct2, THEN conjunct2, THEN conjunct1, rule_format]
  have range: "[0..1] = [0, 1::int]"
    by (simp add: upto.simps)
  from spec have rho: "?f 0 = Finite False 0 (- 1074)"
    by (simp add: eulerLayout_def dzero_def)
  from mom [of 0] have m0: "?f 2 = Finite False 4503599627370496 (- 51)"
    by (simp add: eulerLayout_def eulerExample_def buoyancyExample_def EULER_FIELD_def
        example_doubles double_eval)
  from mom [of 1] have m1: "?f 3 = Finite False 0 (- 1074)"
    by (simp add: eulerLayout_def eulerExample_def buoyancyExample_def EULER_FIELD_def
        example_doubles double_eval)
  from spec [THEN conjunct2, THEN conjunct2, THEN conjunct2]
  have "?f 1 = foldl (\<lambda>e n. dadd e (dmul (ddiv (eulerExample (2 + n)) (eulerExample 0)) (?f (2 + n))))
                 dzero [0, 1]"
    by (simp add: range eulerLayout_def EULER_FIELD_def)
  then have sum: "?f 1 = dadd (dadd dzero (dmul (ddiv (eulerExample 2) (eulerExample 0)) (Finite False 4503599627370496 (- 51))))
                      (dmul (ddiv (eulerExample 3) (eulerExample 0)) (Finite False 0 (- 1074)))"
    by (simp add: m0 m1)
  have cell: "eulerExample 0 = Finite False 6755399441055744 (- 51)"
    "eulerExample 2 = Finite False 4503599627370496 (- 51)"
    "eulerExample 3 = Finite False 4503599627370496 (- 50)"
    by (simp_all add: eulerExample_def example_doubles)
  have val: "dadd (dadd (Finite False 0 (- 1074))
                (dmul (ddiv (Finite False 4503599627370496 (- 51)) (Finite False 6755399441055744 (- 51)))
                      (Finite False 4503599627370496 (- 51))))
             (dmul (ddiv (Finite False 4503599627370496 (- 50)) (Finite False 6755399441055744 (- 51)))
                   (Finite False 0 (- 1074)))
          = Finite False 6004799503160661 (- 52)"
    by (simp add: double_eval)
  have e: "?f 1 = Finite False 6004799503160661 (- 52)"
    by (rule trans [OF sum]) (simp only: cell dzero_def val)
  from rho m0 m1 e show ?thesis by simp
qed

text \<open>
  The claim as stated fails.  A momentum source component is not always non-negative: under
  the average density \<open>0.0 / 0\<close> that \<open>UpdateAverageDensity\<close> computes when no cell is counted,
  the component is NaN, which is not greater than or equal to \<open>0.0\<close>.  And it is not the exact
  \<open>max ((density - densityAvg) * buoyancyVector[n], 0)\<close>: for the density \<open>10^16\<close>, the average
  density -1 and the buoyancy 1 it is \<open>10^16\<close>, where the exact value is \<open>10^16 + 1\<close>.
\<close>

theorem ComputeBuoyancySource_not_nonnegative:
  "snd (ComputeBuoyancySource eulerLayout 2 dzero () (\<lambda>_. 0) eulerExample (\<lambda>_. 0) (\<lambda>_. dzero) (\<lambda>_. dzero) buoyancyUncounted) 2 = NaN
   \<and> \<not> dle dzero (snd (ComputeBuoyancySource eulerLayout 2 dzero () (\<lambda>_. 0) eulerExample (\<lambda>_. 0) (\<lambda>_. dzero) (\<lambda>_. dzero) buoyancyUncounted) 2)
   \<and> valof (snd (ComputeBuoyancySource eulerLayout 1 dzero () (\<lambda>_. 0) eulerLarge (\<lambda>_. 0) (\<lambda>_. dzero) (\<lambda>_. dzero) buoyancyLarge) 2)
       = Some 10000000000000000"
proof -
  have a: "snd (ComputeBuoyancySource eulerLayout 2 dzero () (\<lambda>_. 0) eulerExample (\<lambda>_. 0) (\<lambda>_. dzero) (\<lambda>_. dzero) buoyancyUncounted) 2 = NaN"
    apply (simp add: ComputeBuoyancySource_def buoyancyLoop_step buoyancyLoop_done Let_def)
    apply (simp add: buoyancyBody_def PetscMax_def eulerLayout_def eulerExample_def
        buoyancyUncounted_def EULER_FIELD_def example_doubles)
    apply (simp add: double_eval)
    done
  have b: "snd (ComputeBuoyancySource eulerLayout 1 dzero () (\<lambda>_. 0) eulerLarge (\<lambda>_. 0) (\<lambda>_. dzero) (\<lambda>_. dzero) buoyancyLarge) 2
             = Finite False 5000000000000000 1"
    apply (simp add: ComputeBuoyancySource_def buoyancyLoop_step buoyancyLoop_done Let_def)
    apply (simp add: buoyancyBody_def PetscMax_def eulerLayout_def eulerLarge_def
        buoyancyLarge_def EULER_FIELD_def example_doubles)
    apply (simp add: double_eval)
    done
  from a b show ?thesis by (simp add: dzero_def)
qed

section \<open>The calls a statement makes\<close>

lemma calls_refl: "calls N w w"
  by (simp add: calls_def)

lemma calls_trans: "calls N w w1 \<Longrightarrow> calls N w1 w2 \<Longrightarrow> calls N w w2"
proof -
  assume "calls N w w1" "calls N w1 w2"
  then obtain cs ds where "trace w1 = trace w @ cs" "callName ` set cs \<subseteq> N"
    "trace w2 = trace w1 @ ds" "callName ` set ds \<subseteq> N"
    unfolding calls_def by blast
  then have "trace w2 = trace w @ (cs @ ds) \<and> callName ` set (cs @ ds) \<subseteq> N"
    by (simp add: image_Un)
  then show ?thesis unfolding calls_def by blast
qed

lemma steps_return: "steps (calls N) (return x)"
  by (simp add: steps_def return_def calls_refl)

lemma steps_throw: "steps (calls N) (throw e)"
  by (simp add: steps_def throw_def calls_refl)

lemma steps_getThis: "steps (calls N) getThis"
  by (simp add: steps_def getThis_def calls_refl)

lemma steps_assign: "steps (calls N) (assign f)"
  by (simp add: steps_def assign_def calls_refl)

lemma steps_andThen:
  "steps (calls N) m \<Longrightarrow> (\<And>x. steps (calls N) (f x)) \<Longrightarrow> steps (calls N) (andThen m f)"
proof -
  assume m: "steps (calls N) m" and f: "\<And>x. steps (calls N) (f x)"
  show ?thesis
    unfolding steps_def
  proof
    fix s
    obtain r s1 where ms: "m s = (r, s1)" by (cases "m s")
    from m have 1: "calls N (snd s) (snd s1)"
      unfolding steps_def using ms by (metis snd_conv)
    show "calls N (snd s) (snd (snd (andThen m f s)))"
    proof (cases r)
      case (Inl e)
      with ms 1 show ?thesis by (simp add: andThen_def)
    next
      case (Inr x)
      from f [of x] have "calls N (snd s1) (snd (snd (f x s1)))"
        unfolding steps_def by blast
      with 1 have "calls N (snd s) (snd (snd (f x s1)))" by (rule calls_trans)
      with ms Inr show ?thesis by (simp add: andThen_def)
    qed
  qed
qed

lemma steps_if:
  "(c \<Longrightarrow> steps R a) \<Longrightarrow> (\<not> c \<Longrightarrow> steps R b) \<Longrightarrow> steps R (if c then a else b)"
  by simp

lemma steps_case_prod:
  "(\<And>a b. steps R (f a b)) \<Longrightarrow> steps R (case p of (a, b) \<Rightarrow> f a b)"
  by (cases p) simp

lemma petscCall_trace:
  "trace (snd (petscCall routine args body w)) = trace w @ [PetscCall routine args]"
  by (simp add: petscCall_def Let_def split: prod.splits)

lemma steps_checkError:
  "routine \<in> N \<Longrightarrow> steps (calls N) (checkError (petscCall routine args body))"
proof -
  assume N: "routine \<in> N"
  show ?thesis
    unfolding steps_def
  proof
    fix s :: Machine
    obtain r w1 where c: "petscCall routine args body (snd s) = (r, w1)"
      by (cases "petscCall routine args body (snd s)")
    have "trace w1 = trace (snd s) @ [PetscCall routine args]"
      using petscCall_trace [of routine args body "snd s"] c by simp
    then have "calls N (snd s) w1"
      unfolding calls_def using N by (simp add: callName_def)
    then show "calls N (snd s) (snd (snd (checkError (petscCall routine args body) s)))"
      using c by (cases r) (simp_all add: checkError_def)
  qed
qed

lemma steps_ignoreError:
  "routine \<in> N \<Longrightarrow> steps (calls N) (ignoreError (petscCall routine args body))"
proof -
  assume N: "routine \<in> N"
  show ?thesis
    unfolding steps_def
  proof
    fix s :: Machine
    obtain r w1 where c: "petscCall routine args body (snd s) = (r, w1)"
      by (cases "petscCall routine args body (snd s)")
    have "trace w1 = trace (snd s) @ [PetscCall routine args]"
      using petscCall_trace [of routine args body "snd s"] c by simp
    then have "calls N (snd s) w1"
      unfolding calls_def using N by (simp add: callName_def)
    then show "calls N (snd s) (snd (snd (ignoreError (petscCall routine args body) s)))"
      using c by (simp add: ignoreError_def)
  qed
qed

lemma steps_readIndex: "steps (calls N) (readIndex array i)"
  by (simp add: readIndex_def steps_return steps_throw)

lemma forLoop_step:
  "i < n \<Longrightarrow> forLoop i n body acc s =
     (case body i acc s of (Inl e, s') \<Rightarrow> (Inl e, s') | (Inr acc', s') \<Rightarrow> forLoop (i + 1) n body acc' s')"
  by (subst forLoop.simps) simp

lemma forLoop_done: "\<not> i < n \<Longrightarrow> forLoop i n body acc s = (Inr acc, s)"
  by (subst forLoop.simps) simp

lemma steps_forLoop:
  assumes body: "\<And>i acc. steps (calls N) (body i acc)"
  shows "steps (calls N) (forLoop i n body acc)"
proof -
  have "calls N (snd s) (snd (snd (forLoop i n body acc s)))" for s
  proof (induction "nat (n - i)" arbitrary: i acc s)
    case 0
    then show ?case by (simp add: forLoop_done calls_refl)
  next
    case (Suc k)
    then have lt: "i < n" and k: "k = nat (n - (i + 1))" by linarith+
    obtain r s1 where b: "body i acc s = (r, s1)" by (cases "body i acc s")
    from body [of i acc] have 1: "calls N (snd s) (snd s1)"
      unfolding steps_def using b by (metis snd_conv)
    show ?case
    proof (cases r)
      case (Inl e)
      with b 1 lt show ?thesis by (simp add: forLoop_step)
    next
      case (Inr acc')
      from Suc.hyps(1) [OF k] have "calls N (snd s1) (snd (snd (forLoop (i + 1) n body acc' s1)))" .
      with 1 have "calls N (snd s) (snd (snd (forLoop (i + 1) n body acc' s1)))" by (rule calls_trans)
      with b Inr lt show ?thesis by (simp add: forLoop_step)
    qed
  qed
  then show ?thesis unfolding steps_def by blast
qed

lemma steps_forEach:
  assumes body: "\<And>x acc. steps (calls N) (body x acc)"
  shows "steps (calls N) (forEach xs body acc)"
proof -
  have "calls N (snd s) (snd (snd (forEach xs body acc s)))" for s
  proof (induction xs arbitrary: acc s)
    case Nil
    then show ?case by (simp add: calls_refl)
  next
    case (Cons x xs)
    obtain r s1 where b: "body x acc s = (r, s1)" by (cases "body x acc s")
    from body [of x acc] have 1: "calls N (snd s) (snd s1)"
      unfolding steps_def using b by (metis snd_conv)
    show ?case
    proof (cases r)
      case (Inl e)
      with b 1 show ?thesis by simp
    next
      case (Inr acc')
      from Cons.IH have "calls N (snd s1) (snd (snd (forEach xs body acc' s1)))" .
      with 1 have "calls N (snd s) (snd (snd (forEach xs body acc' s1)))" by (rule calls_trans)
      with b Inr show ?thesis by simp
    qed
  qed
  then show ?thesis unfolding steps_def by blast
qed

lemmas prim_defs =
  DMPlexGetHeightStratum_def DMGetCoordinateDM_def DMClone_def DMSetCoordinateDM_def
  DMGetCoordinateDim_def DMDestroy_def DMCreateLabel_def DMGetLabel_def DMLabelSetValue_def
  DMPlexLabelComplete_def PetscSectionCreate_def PetscSectionSetChart_def PetscSectionSetDof_def
  PetscSectionSetUp_def PetscSectionDestroy_def DMSetLocalSection_def PetscFVCreate_def
  PetscObjectSetName_FV_def PetscFVSetFromOptions_def PetscFVSetNumComponents_def
  PetscFVSetSpatialDimension_def DMAddField_def PetscFVDestroy_def DMCreateDS_def DMPlexFilter_def
  DMPlexGetSubpointIS_def ISGetIndices_def ISRestoreIndices_def DMGetLocalVector_def
  DMGetGlobalVector_def DMRestoreLocalVector_def DMRestoreGlobalVector_def VecZeroEntries_def
  VecGetBlockSize_def PetscObjectSetName_Vec_def VecGetArrayRead_def VecGetArray_def
  VecRestoreArrayRead_def VecRestoreArray_def DMPlexPointLocalRead_def DMPlexPointLocalRef_def
  PetscArraycpy_def DMGlobalToLocalBegin_def DMGlobalToLocalEnd_def DMLocalToGlobal_def
  DMSetOutputSequenceNumber_def DMView_def VecView_def ComputeRHSFunction_def

lemmas steps_intros =
  steps_andThen steps_if steps_case_prod steps_checkError steps_ignoreError steps_return
  steps_throw steps_getThis steps_assign steps_readIndex steps_forLoop steps_forEach

lemma Save_later_calls:
  "n \<noteq> 0 \<Longrightarrow> steps (calls afterTopology) (Save v n t)"
  unfolding Save_def copyFace_def prim_defs
  by (intro steps_intros) (simp_all add: afterTopology_def)

lemma andThen_getThis: "andThen getThis f s = f (fst s) s"
  by (simp add: andThen_def getThis_def)

lemma andThen_return: "andThen (return x) f s = f x s"
  by (simp add: andThen_def return_def)

lemma checkError_fst: "fst (snd (checkError call s)) = fst s"
  by (simp add: checkError_def split: prod.splits sum.splits)

lemma andThen_calls_head:
  assumes f: "\<And>x. steps (calls N) (f x)"
  shows "\<exists>cs. trace (snd (snd (andThen (checkError (petscCall routine args body)) f s)))
           = trace (snd s) @ PetscCall routine args # cs \<and> callName ` set cs \<subseteq> N"
proof -
  obtain r w1 where c: "petscCall routine args body (snd s) = (r, w1)"
    by (cases "petscCall routine args body (snd s)")
  have t: "trace w1 = trace (snd s) @ [PetscCall routine args]"
    using petscCall_trace [of routine args body "snd s"] c by simp
  show ?thesis
  proof (cases r)
    case (Inl e)
    with c t show ?thesis by (simp add: andThen_def checkError_def)
  next
    case (Inr x)
    from f [of x] obtain cs where
      "trace (snd (snd (f x (fst s, w1)))) = trace w1 @ cs" "callName ` set cs \<subseteq> N"
      unfolding steps_def calls_def by (metis snd_conv)
    with c t Inr show ?thesis by (simp add: andThen_def checkError_def)
  qed
qed

lemma callsDuring_eq:
  "trace (snd (snd (m s))) = trace (snd s) @ cs \<Longrightarrow> callsDuring m s = cs"
  by (simp add: callsDuring_def)

lemma Save_first_calls:
  "\<exists>cs. trace (snd (snd (Save v 0 t s)))
      = trace (snd s) @ PetscCall ''DMView'' [hnd (faceDm (fst s)), int v] # cs
    \<and> callName ` set cs \<subseteq> afterTopology"
  unfolding Save_def copyFace_def prim_defs andThen_getThis
  by (simp only: if_True refl) (rule andThen_calls_head, (intro steps_intros; simp add: afterTopology_def))

section \<open>Running the example\<close>

text \<open>Evaluation proceeds statement by statement: the continuation of a statement is not
  simplified before the statement has run.\<close>

lemma andThen_cong_weak: "m = m' \<Longrightarrow> s = s' \<Longrightarrow> andThen m f s = andThen m' f s'"
  by simp

lemma forLoop_cong_weak:
  "i = i' \<Longrightarrow> n = n' \<Longrightarrow> acc = acc' \<Longrightarrow> s = s' \<Longrightarrow> forLoop i n body acc s = forLoop i' n' body acc' s'"
  by simp

lemma forEach_cong_weak:
  "xs = xs' \<Longrightarrow> acc = acc' \<Longrightarrow> s = s' \<Longrightarrow> forEach xs body acc s = forEach xs' body acc' s'"
  by simp

lemma forLoop_unfold:
  "forLoop i n body acc s =
     (if i < n
      then (case body i acc s of
              (Inl e, s') \<Rightarrow> (Inl e, s')
            | (Inr acc', s') \<Rightarrow> forLoop (i + 1) n body acc' s')
      else (Inr acc, s))"
  by (rule forLoop.simps)

lemma replicate_numeral: "replicate (numeral k) x = x # replicate (pred_numeral k) x"
  by (simp add: numeral_eq_Suc)

lemmas exec_defs = andThen_def return_def throw_def getThis_def assign_def checkError_def
  ignoreError_def readIndex_def Monitor_Register_def GetSolver_def GetId_def GetDM_def
  GetSolutionVector_def GetSolverId_def dynamic_pointer_cast_def

lemmas run_defs = petscCall_def withDM_def withVec_def putDM_def putVec_def hnd_def Let_def
  checkOut_def newVec_def restoreVec_def pointLocal_def inChart_def sectionDof_def sectionOffset_def
  copyInto_def sectionBlockSize_def replicate_numeral

lemmas pure_defs = stratum_def DMGetLocalSection_def sectionFromFields_def sectionSetUp_def chart_def
  inStratum_def globalDofs_def sectionSF_def sectionDof_def

lemma sectionFromFields_outputSequence:
  "sectionFromFields (d\<lparr>outputSequence := x\<rparr>) = sectionFromFields d"
  by (simp add: sectionFromFields_def chart_def inStratum_def stratum_def cong: if_cong)

lemma DMGetLocalSection_outputSequence:
  "DMGetLocalSection (d\<lparr>outputSequence := x\<rparr>) = DMGetLocalSection d"
  by (simp add: DMGetLocalSection_def sectionFromFields_outputSequence split: option.splits)

lemma sectionSFFrom_outputSequence:
  "sectionSFFrom (d\<lparr>outputSequence := x\<rparr>) s g ps = sectionSFFrom d s g ps"
  by (induction ps arbitrary: g) simp_all

lemma DM_outputSequence_frame:
  "DMGetLocalSection (d\<lparr>outputSequence := x\<rparr>) = DMGetLocalSection d"
  "globalDofs (d\<lparr>outputSequence := x\<rparr>) = globalDofs d"
  "sectionSF (d\<lparr>outputSequence := x\<rparr>) = sectionSF d"
  "stratum (d\<lparr>outputSequence := x\<rparr>) n = stratum d n"
  by (simp_all add: DMGetLocalSection_outputSequence globalDofs_def sectionSF_def stratum_def
      sectionSFFrom_outputSequence)

lemma readyDM_facts:
  "DMGetLocalSection triangleDM = \<lparr>pStart = 0, pEnd = 7, atlasDof = [0,0,0,0,0,0,0], atlasOff = [0,0,0,0,0,0,0]\<rparr>"
  "DMGetLocalSection readyBoundaryDM = \<lparr>pStart = 4, pEnd = 7, atlasDof = [1, 0, 1], atlasOff = [0, 1, 1]\<rparr>"
  "DMGetLocalSection readyFaceDM = \<lparr>pStart = 0, pEnd = 6, atlasDof = [1,1,1,0,0,0], atlasOff = [0,1,2,3,3,3]\<rparr>"
  "globalDofs readyFaceDM = [1,1,1,0,0,0]"
  "sectionSF readyFaceDM = [Some 0, Some 1, Some 2]"
  "stratum readyFaceDM 0 = (0, 3)"
  "subpointIS readyFaceDM = Some [4, 5, 6, 1, 2, 3]"
  "strata readyFaceDM = [(0, 3), (3, 6)]"
  "outputSequence readyFaceDM = (-1, dzero)"
  by (simp_all add: pure_defs triangleDM_def readyBoundaryDM_def readyFaceDM_def upto.simps)

lemma ready_reduce:
  "localToGlobal ADD_VALUES [Some 0, Some (Suc 0), Some 2] [(0, dzero)]
     [double_of_int 10, dzero, double_of_int 20] [dzero, dzero, dzero]
     = [double_of_int 10, dzero, double_of_int 20]"
  by (simp add: localToGlobal_def leafValues_def remoteValues_def upt_rec double_eval)

lemmas ready_defs = exampleBoundarySolver_def failingBoundarySolver_def ready_def readyFailing_def
  readyMonitor_def readyHeap_def

lemma ready_Save:
  "(case Save 3 0 exampleTime ready of
      (r, mon, w) \<Rightarrow> r = Inr ()
        \<and> trace w =
           [PetscCall ''DMView'' [2, 3], PetscCall ''DMSetOutputSequenceNumber'' [2, 0],
            PetscCall ''DMGetLocalVector'' [0], PetscCall ''DMGlobalToLocalBegin'' [0, 0, 1],
            PetscCall ''DMGetLocalVector'' [1], PetscCall ''VecZeroEntries'' [2],
            PetscCall ''DMGlobalToLocalEnd'' [0, 0, 1], PetscCall ''ComputeRHSFunction'' [1, 2],
            PetscCall ''DMGetLocalVector'' [2], PetscCall ''VecZeroEntries'' [3],
            PetscCall ''VecGetArrayRead'' [2], PetscCall ''VecGetArray'' [3],
            PetscCall ''VecGetBlockSize'' [3], PetscCall ''DMPlexGetHeightStratum'' [2, 0],
            PetscCall ''DMPlexGetSubpointIS'' [2], PetscCall ''ISGetIndices'' [],
            PetscCall ''DMPlexPointLocalRead'' [1, 4], PetscCall ''DMPlexPointLocalRef'' [2, 0],
            PetscCall ''PetscArraycpy'' [0, 0, 1],
            PetscCall ''DMPlexPointLocalRead'' [1, 5], PetscCall ''DMPlexPointLocalRef'' [2, 1],
            PetscCall ''DMPlexPointLocalRead'' [1, 6], PetscCall ''DMPlexPointLocalRef'' [2, 2],
            PetscCall ''PetscArraycpy'' [2, 1, 1],
            PetscCall ''ISRestoreIndices'' [], PetscCall ''VecRestoreArrayRead'' [2],
            PetscCall ''VecRestoreArray'' [3], PetscCall ''DMGetGlobalVector'' [2],
            PetscCall ''PetscObjectSetName'' [4], PetscCall ''VecZeroEntries'' [4],
            PetscCall ''DMLocalToGlobal'' [2, 3, 4], PetscCall ''VecView'' [4, 3],
            PetscCall ''DMRestoreGlobalVector'' [2, 4], PetscCall ''DMRestoreLocalVector'' [2, 3],
            PetscCall ''DMRestoreLocalVector'' [0, 1], PetscCall ''DMRestoreLocalVector'' [1, 2]]
        \<and> checkedOut (heap w) = []
        \<and> viewerOutput (heap w) =
            [(3, TopologyRecord [(0, 3), (3, 6)] (Some [4, 5, 6, 1, 2, 3])),
             (3, FieldRecord ''boundary_boundarySolverMonitor'' 0 exampleTime [double_of_int 10, dzero, double_of_int 20])]
        \<and> map_option entries (vecs (heap w) 2) = Some [double_of_int 10, double_of_int 20]
        \<and> map_option entries (vecs (heap w) 3) = Some [double_of_int 10, dzero, double_of_int 20]
        \<and> map_option entries (vecs (heap w) 4) = Some [double_of_int 10, dzero, double_of_int 20])"
  unfolding Save_def copyFace_def
  by (simp add: exec_defs run_defs prim_defs forLoop_unfold ready_defs DM_outputSequence_frame
      readyDM_facts ready_reduce ComputeRHSFunction_def
      cong: andThen_cong_weak forLoop_cong_weak forEach_cong_weak)

lemma readyFailing_Save:
  "(case Save 3 0 exampleTime readyFailing of
      (r, mon, w) \<Rightarrow> r = Inl (runtime_error 76)
        \<and> trace w =
           [PetscCall ''DMView'' [2, 3], PetscCall ''DMSetOutputSequenceNumber'' [2, 0],
            PetscCall ''DMGetLocalVector'' [0], PetscCall ''DMGlobalToLocalBegin'' [0, 0, 1],
            PetscCall ''DMGetLocalVector'' [1], PetscCall ''VecZeroEntries'' [2],
            PetscCall ''DMGlobalToLocalEnd'' [0, 0, 1], PetscCall ''ComputeRHSFunction'' [1, 2]]
        \<and> checkedOut (heap w) = [2, 1]
        \<and> viewerOutput (heap w) = [(3, TopologyRecord [(0, 3), (3, 6)] (Some [4, 5, 6, 1, 2, 3]))])"
  unfolding Save_def copyFace_def
  by (simp add: exec_defs run_defs prim_defs forLoop_unfold ready_defs DM_outputSequence_frame
      readyDM_facts ready_reduce ComputeRHSFunction_def
      cong: andThen_cong_weak forLoop_cong_weak forEach_cong_weak)

section \<open>What a statement does to the heap\<close>












lemmas heap_defs = withDM_def withVec_def putDM_def putVec_def checkOut_def restoreVec_def
  pointLocal_def Let_def

lemma andThen_checkError_run:
  "andThen (checkError (petscCall routine args body)) f s =
     (if injected (snd s) (PetscCall routine args) \<noteq> 0
      then (Inl (runtime_error (injected (snd s) (PetscCall routine args))),
            (fst s, (snd s)\<lparr>trace := trace (snd s) @ [PetscCall routine args]\<rparr>))
      else (case body (heap (snd s)) of
              (Inl e, h) \<Rightarrow> (Inl (runtime_error e),
                 (fst s, (snd s)\<lparr>trace := trace (snd s) @ [PetscCall routine args], heap := h\<rparr>))
            | (Inr x, h) \<Rightarrow>
                 f x (fst s, (snd s)\<lparr>trace := trace (snd s) @ [PetscCall routine args], heap := h\<rparr>)))"
  by (simp add: andThen_def checkError_def petscCall_def Let_def split: prod.splits sum.splits)

section \<open>The topology record\<close>







section \<open>Registration with a solver that is not a boundary solver\<close>

text \<open>
  Claim C6.  For every solver whose dynamic type is not the boundary solver, \<open>Register\<close> throws
  \<open>std::invalid_argument\<close> and leaves the world as it was: no library call is made and no mesh is
  allocated.  The handles \<open>boundaryDm\<close> and \<open>faceDm\<close> of the monitor keep their values; for a
  monitor that has not been registered they stay null, and its destructor then destroys
  nothing.
\<close>

theorem Register_other_solver:
  "fst (Register (OtherSolverPtr b) (mon, w)) =
      Inl (invalid_argument
        ''The BoundarySolverMonitor monitor can only be used with ablate::boundarySolver::BoundarySolver'')
   \<and> snd (snd (Register (OtherSolverPtr b) (mon, w))) = w
   \<and> boundaryDm (fst (snd (Register (OtherSolverPtr b) (mon, w)))) = boundaryDm mon
   \<and> faceDm (fst (snd (Register (OtherSolverPtr b) (mon, w)))) = faceDm mon
   \<and> boundaryDm (fst (snd (Register (OtherSolverPtr b) (newMonitor, w)))) = None
   \<and> faceDm (fst (snd (Register (OtherSolverPtr b) (newMonitor, w)))) = None
   \<and> snd (snd (destructor (snd (Register (OtherSolverPtr b) (newMonitor, w))))) = w"
  by (simp add: Register_def Monitor_Register_def andThen_def assign_def getThis_def throw_def
      dynamic_pointer_cast_def newMonitor_def destructor_def return_def)

section \<open>The order of the calls around the ghost exchange\<close>

lemma followsAt_steps:
  assumes "steps (calls N) m"
  shows "followsAt [] N m s"
proof -
  from assms obtain cs where cs: "trace (snd (snd (m s))) = trace (snd s) @ cs" "callName ` set cs \<subseteq> N"
    unfolding steps_def calls_def by blast
  then have "trace (snd (snd (m s))) = trace (snd s) @ take 0 [] @ cs" by simp
  with cs(2) show ?thesis unfolding followsAt_def by blast
qed

lemma followsAt_getThis:
  "followsAt P N (f (fst s)) s \<Longrightarrow> followsAt P N (andThen getThis f) s"
  by (simp add: followsAt_def andThen_getThis)

lemma followsAt_skip:
  "followsAt P N (f a) s \<Longrightarrow> followsAt P N (andThen (return a) f) s"
  by (simp add: followsAt_def andThen_return)

lemma followsAt_call:
  assumes c: "c = PetscCall routine args"
    and f: "\<And>x h. injected (snd s) (PetscCall routine args) = 0 \<Longrightarrow> body (heap (snd s)) = (Inr x, h)
               \<Longrightarrow> followsAt P N (f x) (fst s, (snd s)\<lparr>trace := trace (snd s) @ [PetscCall routine args], heap := h\<rparr>)"
  shows "followsAt (c # P) N (andThen (checkError (petscCall routine args body)) f) s"
proof -
  let ?m = "andThen (checkError (petscCall routine args body)) f"
  let ?c = "PetscCall routine args"
  have failed: "followsAt (c # P) N ?m s"
    if "trace (snd (snd (?m s))) = trace (snd s) @ [?c]" "fst (?m s) = Inl e" for e
  proof -
    from that(1) have "trace (snd (snd (?m s))) = trace (snd s) @ take 1 (c # P) @ []"
      by (simp add: c)
    moreover have "callName ` set [] \<subseteq> N" by simp
    ultimately show ?thesis
      unfolding followsAt_def using that(2) by blast
  qed
  show ?thesis
  proof (cases "injected (snd s) ?c = 0")
    case False
    then show ?thesis
      by (intro failed) (simp_all add: andThen_checkError_run)
  next
    case ok: True
    obtain r h where b: "body (heap (snd s)) = (r, h)" by (cases "body (heap (snd s))")
    show ?thesis
    proof (cases r)
      case (Inl e)
      with ok b show ?thesis
        by (intro failed) (simp_all add: andThen_checkError_run)
    next
      case (Inr x)
      let ?s1 = "(fst s, (snd s)\<lparr>trace := trace (snd s) @ [?c], heap := h\<rparr>)"
      from ok b Inr have run: "?m s = f x ?s1"
        by (simp add: andThen_checkError_run)
      from f [OF ok] b Inr obtain k ns where
        k: "trace (snd (snd (f x ?s1))) = trace (snd ?s1) @ take k P @ ns" "callName ` set ns \<subseteq> N"
          "length P \<le> k \<or> (ns = [] \<and> (\<exists>e. fst (f x ?s1) = Inl e))"
        unfolding followsAt_def by blast
      from k(1) have 1: "trace (snd (snd (?m s))) = trace (snd s) @ take (Suc k) (c # P) @ ns"
        by (simp add: run c)
      have 3: "length (c # P) \<le> Suc k \<or> (ns = [] \<and> (\<exists>e. fst (?m s) = Inl e))"
        using k(3) run by auto
      from 1 3 k(2) show ?thesis unfolding followsAt_def by blast
    qed
  qed
qed

lemma Save_followsAt: "followsAt (exchangeCalls s v n) afterExchange (Save v n t) s"
proof (cases "n = 0")
  case True
  show ?thesis
    unfolding Save_def copyFace_def prim_defs exchangeCalls_def
    apply (simp only: True if_True append_Cons append_Nil refl)
    apply (rule followsAt_getThis)
    apply (rule followsAt_call, rule refl)
    apply (rule followsAt_call, rule refl)
    apply (rule followsAt_call, rule refl)
    apply (rule followsAt_call)
     apply (auto simp: heap_defs newVec_def hnd_def split: option.splits)[1]
    apply (rule followsAt_call, rule refl)
    apply (rule followsAt_call)
     apply (auto simp: heap_defs newVec_def hnd_def split: option.splits)[1]
    apply (rule followsAt_call)
     apply (auto simp: heap_defs newVec_def hnd_def split: option.splits)[1]
    apply (rule followsAt_steps)
    apply (intro steps_intros; simp add: afterExchange_def)
    done
next
  case False
  show ?thesis
    unfolding Save_def copyFace_def prim_defs exchangeCalls_def
    apply (simp only: False if_False append_Cons append_Nil refl)
    apply (rule followsAt_getThis)
    apply (rule followsAt_skip)
    apply (rule followsAt_call, rule refl)
    apply (rule followsAt_call, rule refl)
    apply (rule followsAt_call)
     apply (auto simp: heap_defs newVec_def hnd_def split: option.splits)[1]
    apply (rule followsAt_call, rule refl)
    apply (rule followsAt_call)
     apply (auto simp: heap_defs newVec_def hnd_def split: option.splits)[1]
    apply (rule followsAt_call)
     apply (auto simp: heap_defs newVec_def hnd_def split: option.splits)[1]
    apply (rule followsAt_steps)
    apply (intro steps_intros; simp add: afterExchange_def)
    done
qed

text \<open>
  Claim C9, as amended.  In every \<open>Save\<close> call, whatever the library calls return, the begin of
  the ghost exchange for the local solution view is not followed at once by its end.  The
  calls of \<open>Save\<close> start with the list \<open>exchangeCalls\<close>: after \<open>DMGlobalToLocalBegin\<close> on the
  solver's mesh, the solution vector and the local solution view come exactly two calls,
  \<open>DMGetLocalVector\<close> on the boundary mesh, which acquires the local boundary result vector,
  and \<open>VecZeroEntries\<close> on that vector, and then \<open>DMGlobalToLocalEnd\<close> with the arguments of the
  begin.  The list is cut short only when one of its calls fails, and then \<open>Save\<close> throws and
  calls nothing more; the calls after the list are neither the begin nor the end of an
  exchange.
\<close>

theorem Save_exchange_order:
  "\<exists>k ns. callsDuring (Save viewer sequenceNumber time) s
            = take k (exchangeCalls s viewer sequenceNumber) @ ns
        \<and> callName ` set ns \<subseteq> afterExchange
        \<and> (length (exchangeCalls s viewer sequenceNumber) \<le> k
            \<or> (ns = [] \<and> (\<exists>e. fst (Save viewer sequenceNumber time s) = Inl e)))"
proof -
  from Save_followsAt [of s viewer sequenceNumber time] obtain k ns where
    t: "trace (snd (snd (Save viewer sequenceNumber time s)))
          = trace (snd s) @ take k (exchangeCalls s viewer sequenceNumber) @ ns"
    and rest: "callName ` set ns \<subseteq> afterExchange"
      "length (exchangeCalls s viewer sequenceNumber) \<le> k
         \<or> (ns = [] \<and> (\<exists>e. fst (Save viewer sequenceNumber time s) = Inl e))"
    unfolding followsAt_def by blast
  from t have "callsDuring (Save viewer sequenceNumber time) s
      = take k (exchangeCalls s viewer sequenceNumber) @ ns"
    by (simp add: callsDuring_def)
  with rest show ?thesis by blast
qed

text \<open>
  The claim as stated fails on the example: the call after \<open>DMGlobalToLocalBegin\<close> is
  \<open>DMGetLocalVector\<close> on the boundary mesh, and \<open>DMGlobalToLocalEnd\<close> comes three calls later.
\<close>

theorem Save_exchange_not_adjacent:
  "callsDuring (Save 3 0 exampleTime) ready ! 3 = PetscCall ''DMGlobalToLocalBegin'' [0, 0, 1]
   \<and> callsDuring (Save 3 0 exampleTime) ready ! 4 = PetscCall ''DMGetLocalVector'' [1]
   \<and> callsDuring (Save 3 0 exampleTime) ready ! 5 = PetscCall ''VecZeroEntries'' [2]
   \<and> callsDuring (Save 3 0 exampleTime) ready ! 6 = PetscCall ''DMGlobalToLocalEnd'' [0, 0, 1]"
proof -
  obtain r mon w where run: "Save 3 0 exampleTime ready = (r, mon, w)"
    by (cases "Save 3 0 exampleTime ready") auto
  have "trace (snd ready) = []" by (simp add: ready_def)
  with ready_Save run show ?thesis
    by (simp add: callsDuring_def)
qed

section \<open>Transient buffers on the exit paths of Save\<close>

text \<open>
  The claim C5 as stated fails on the example whose computation routine returns error code 76:
  \<open>Save\<close> throws, the local solution view (vector 1) and the local boundary result (vector 2)
  are still checked out, and the topology record has been written.
\<close>

theorem Save_failure_keeps_buffers:
  "fst (Save 3 0 exampleTime readyFailing) = Inl (runtime_error 76)
   \<and> checkedOut (heap (snd readyFailing)) = []
   \<and> checkedOut (heap (snd (snd (Save 3 0 exampleTime readyFailing)))) = [2, 1]
   \<and> viewerOutput (heap (snd readyFailing)) = []
   \<and> viewerOutput (heap (snd (snd (Save 3 0 exampleTime readyFailing))))
       = [(3, TopologyRecord [(0, 3), (3, 6)] (Some [4, 5, 6, 1, 2, 3]))]"
proof -
  obtain r mon w where run: "Save 3 0 exampleTime readyFailing = (r, mon, w)"
    by (cases "Save 3 0 exampleTime readyFailing") auto
  have "checkedOut (heap (snd readyFailing)) = []" "viewerOutput (heap (snd readyFailing)) = []"
    by (simp_all add: readyFailing_def readyHeap_def)
  with readyFailing_Save run show ?thesis
    by simp
qed

end
